theory Spec2Isabelle
  imports Main "HOL-Library.Word"
begin

section \<open>Data model\<close>

text \<open>
  The structs of package \<open>internal\<close> as records. Go strings are byte strings and
  are modelled as \<open>string\<close>, a list of 8-bit \<open>char\<close>s, which is also the
  type of a \<open>[]byte\<close>; a \<open>rune\<close> is a 32-bit word; Go's \<open>int\<close> is modelled as \<open>int\<close> (no
  quantity of the functions below comes near the 64-bit range); \<open>time.Time\<close> values
  are abstract ticks.
\<close>

type_synonym byte = char
type_synonym rune = "32 word"

record ChatMessage =
  Content :: string
  FromUser :: bool
  Timestamp :: nat

record AIResponse =
  Message :: string
  SendKeys :: "string list"
  ExecCommand :: "string list"
  PasteMultilineContent :: string
  RequestAccomplished :: bool
  ExecPaneSeemsBusy :: bool
  WaitingForUserResponse :: bool
  NoComment :: bool

record SuggestedToolAction =
  Action :: string
  Name :: string
  Section :: string
  Description :: string
  Reason :: string
  Outcome :: string

record CommandReflection =
  Command :: string
  Output :: string
  ExitCode :: int
  LessonsLearned :: string
  Alternative :: string
  AlternativeRationale :: string
  SuggestedActions :: "SuggestedToolAction list"
  Timestamp_refl :: nat

text \<open>The fields of \<open>system.TmuxPaneDetails\<close> that the orchestration reads.\<close>

record TmuxPaneDetails =
  Id_pane :: string
  IsPrepared :: bool
  IsSubShell :: bool
  Shell :: string
  OS :: string

text \<open>The fields of \<open>config.Config\<close> that the orchestration reads.\<close>

record Config =
  Debug :: bool
  ExecConfirm :: bool
  SendKeysConfirm :: bool
  PasteMultilineConfirm :: bool
  WaitInterval :: int
  MaxContextSize :: int
  OpenRouterModel :: string
  WhitelistPatterns :: "string list"
  BlacklistPatterns :: "string list"

text \<open>
  \<open>SessionOverrides\<close> is a \<open>map[string]interface{}\<close>; the getters type-assert
  the stored value, so the dynamic type is part of the value.
\<close>

datatype override = OvInt int | OvBool bool | OvString string | OvOther

record Manager =
  Config :: Config
  Status :: string
  ExecPane :: TmuxPaneDetails
  Messages :: "ChatMessage list"
  ReflectionLog :: "CommandReflection list"
  WatchMode :: bool
  SessionOverrides :: "string \<rightharpoonup> override"

section \<open>Guardrail check\<close>

text \<open>
  \<open>aiFollowedGuidelines\<close> (process_message.go): four conditional increments of
  \<open>boolCount\<close>, the slice \<open>tags\<close> of three lengths, the counting loop over it and
  the three checks in the order of the source.
\<close>

definition boolCount :: "AIResponse \<Rightarrow> int" where
  "boolCount r =
     (let c0 = 0;
          c1 = (if RequestAccomplished r then c0 + 1 else c0);
          c2 = (if ExecPaneSeemsBusy r then c1 + 1 else c1);
          c3 = (if WaitingForUserResponse r then c2 + 1 else c2);
          c4 = (if NoComment r then c3 + 1 else c3)
      in c4)"

definition tags :: "AIResponse \<Rightarrow> int list" where
  "tags r =
     [int (length (ExecCommand r)), int (length (SendKeys r))] @
     (if PasteMultilineContent r \<noteq> '''' then [1] else [0])"

fun countPositive :: "int list \<Rightarrow> int \<Rightarrow> int" where
  "countPositive [] count = count"
| "countPositive (len # rest) count =
     countPositive rest (if len > 0 then count + 1 else count)"

definition aiFollowedGuidelines :: "Manager \<Rightarrow> AIResponse \<Rightarrow> string \<times> bool" where
  "aiFollowedGuidelines m r =
     (if boolCount r > 1 then
        (''You didn't follow the guidelines. Only one boolean flag should be set to true in your response. Pay attention!'', False)
      else
        let count = countPositive (tags r) 0 in
        if count > 1 then
          (''You didn't follow the guidelines. You can only use one type of XML tag in your response. Pay attention!'', False)
        else if \<not> WatchMode m \<and> count + boolCount r = 0 then
          (''You didn't follow the guidelines. You must use at least one XML tag in your response. Pay attention!'', False)
        else ('''', True))"

text \<open>
  The two counts as the specification words them: the number of true flags among the
  four booleans, and the number of non-empty action categories among the three.
\<close>

definition spec_flagCount :: "AIResponse \<Rightarrow> nat" where
  "spec_flagCount r =
     length (filter (\<lambda>b. b)
       [RequestAccomplished r, ExecPaneSeemsBusy r, WaitingForUserResponse r, NoComment r])"

definition spec_categoryCount :: "AIResponse \<Rightarrow> nat" where
  "spec_categoryCount r =
     length (filter (\<lambda>b. b)
       [ExecCommand r \<noteq> [], SendKeys r \<noteq> [], PasteMultilineContent r \<noteq> ''''])"

definition exampleManager :: Manager where
  "exampleManager =
     \<lparr> Config = \<lparr> Debug = False, ExecConfirm = True, SendKeysConfirm = True,
                  PasteMultilineConfirm = True, WaitInterval = 5, MaxContextSize = 100000,
                  OpenRouterModel = ''test-model'', WhitelistPatterns = [],
                  BlacklistPatterns = [] \<rparr>,
       Status = ''running'',
       ExecPane = \<lparr> Id_pane = ''test-pane'', IsPrepared = False, IsSubShell = False,
                    Shell = ''bash'', OS = ''linux'' \<rparr>,
       Messages = [],
       ReflectionLog = [],
       WatchMode = False,
       SessionOverrides = Map.empty \<rparr>"

definition emptyResponse :: AIResponse where
  "emptyResponse =
     \<lparr> Message = '''', SendKeys = [], ExecCommand = [], PasteMultilineContent = '''',
       RequestAccomplished = False, ExecPaneSeemsBusy = False,
       WaitingForUserResponse = False, NoComment = False \<rparr>"

section \<open>Collaborators and effects\<close>

text \<open>
  The orchestration talks to the model provider, the terminal multiplexer, the user and
  the clock. Each call that leaves the process is recorded as an \<open>event\<close>, in program
  order; the answers of the collaborators are functions of the events so far, so that an
  answer may differ from call to call. Spinner and \<open>logger.Debug\<close> calls have no
  effect on the session and are left out; \<open>Println\<close> records the message without the
  coloured prompt prefix. \<open>TermOut\<close> is text written to the terminal with
  \<open>fmt.Print\<close>; \<open>Redraw\<close> and \<open>Beep\<close> are the two closures of the line
  editor, \<open>Redraw\<close> with the buffer and cursor it draws.
\<close>

datatype ctx_error = Canceled | DeadlineExceeded

text \<open>
  A \<open>context.Context\<close> is either the caller's cancellable context or one derived from
  \<open>context.Background()\<close> inside the callee, which nobody cancels while the callee runs.
\<close>

datatype ctx = CallerCtx | BackgroundCtx

datatype event =
    AiRequest ctx "ChatMessage list" string
  | Confirm string string bool
  | SendToPane string string bool
  | ExecWait string
  | Sleep nat
  | CountdownEv int
  | Println string
  | DebugDump "ChatMessage list" string
  | LogError string
  | ReflectionLogTrimmed int
  | TermOut string
  | Redraw "rune list" int
  | Beep
  | EditorRun string string
  | RemoveFile string

fun isAiRequest :: "event \<Rightarrow> bool" where
  "isAiRequest (AiRequest c messages model) = True"
| "isAiRequest ev = False"

text \<open>
  The collaborators. \<open>GetResponseFromChatMessages\<close> answers \<open>Inl\<close> with the error
  text or \<open>Inr\<close> with the completion. \<open>confirmedToExec\<close> and
  \<open>getTmuxPanesInXml\<close> are the function-valued fields of \<open>Manager\<close>.
  \<open>parseAIResponse\<close>, \<open>ExecWaitCapture\<close>, \<open>system.EstimateTokenCount\<close>,
  \<open>system.HighlightCode\<close> and \<open>system.Cosmetics\<close> are called by the functions
  below and taken as parameters; so are the two prompt builders, whose text plays no role
  here. \<open>contextThreshold\<close> stands for the floating-point expression
  \<open>int(float64(max) * 0.8)\<close> of \<open>needSquash\<close>.
\<close>

record env =
  GetResponseFromChatMessages :: "event list \<Rightarrow> ctx \<Rightarrow> ChatMessage list \<Rightarrow> string \<Rightarrow> string + string"
  confirmedToExec :: "event list \<Rightarrow> string \<Rightarrow> string \<Rightarrow> bool \<Rightarrow> bool \<times> string"
  getTmuxPanesInXml :: "event list \<Rightarrow> string"
  parseAIResponse :: "string \<Rightarrow> string + AIResponse"
  ExecWaitCapture :: "event list \<Rightarrow> string \<Rightarrow> Manager \<Rightarrow> Manager"
  ctxErr :: "event list \<Rightarrow> ctx_error option"
  timeNow :: "event list \<Rightarrow> nat"
  EstimateTokenCount :: "string \<Rightarrow> int"
  contextThreshold :: "int \<Rightarrow> int"
  watchPrompt :: "Manager \<Rightarrow> ChatMessage"
  chatAssistantPrompt :: "Manager \<Rightarrow> bool \<Rightarrow> ChatMessage"
  HighlightCode :: "string \<Rightarrow> string \<Rightarrow> string"
  Cosmetics :: "string \<Rightarrow> string"

definition newline :: string where
  "newline = [CHR 0x0A]"

section \<open>Session getters\<close>

text \<open>The getters of the session overrides: an override of the right dynamic type wins.\<close>

definition GetMaxContextSize :: "Manager \<Rightarrow> int" where
  "GetMaxContextSize m =
     (case SessionOverrides m ''max_context_size'' of
        Some (OvInt val) \<Rightarrow> val
      | _ \<Rightarrow> MaxContextSize (Config m))"

definition GetWaitInterval :: "Manager \<Rightarrow> int" where
  "GetWaitInterval m =
     (case SessionOverrides m ''wait_interval'' of
        Some (OvInt val) \<Rightarrow> val
      | _ \<Rightarrow> WaitInterval (Config m))"

definition GetSendKeysConfirm :: "Manager \<Rightarrow> bool" where
  "GetSendKeysConfirm m =
     (case SessionOverrides m ''send_keys_confirm'' of
        Some (OvBool val) \<Rightarrow> val
      | _ \<Rightarrow> SendKeysConfirm (Config m))"

definition GetPasteMultilineConfirm :: "Manager \<Rightarrow> bool" where
  "GetPasteMultilineConfirm m =
     (case SessionOverrides m ''paste_multiline_confirm'' of
        Some (OvBool val) \<Rightarrow> val
      | _ \<Rightarrow> PasteMultilineConfirm (Config m))"

definition GetExecConfirm :: "Manager \<Rightarrow> bool" where
  "GetExecConfirm m =
     (case SessionOverrides m ''exec_confirm'' of
        Some (OvBool val) \<Rightarrow> val
      | _ \<Rightarrow> ExecConfirm (Config m))"

definition GetOpenRouterModel :: "Manager \<Rightarrow> string" where
  "GetOpenRouterModel m =
     (case SessionOverrides m ''openrouter.model'' of
        Some (OvString val) \<Rightarrow> val
      | _ \<Rightarrow> OpenRouterModel (Config m))"

section \<open>Context window manager\<close>

text \<open>\<open>needSquash\<close> (squash.go): the token sum of the history against the threshold.\<close>

definition needSquash :: "env \<Rightarrow> Manager \<Rightarrow> bool" where
  "needSquash e m =
     (let totalTokens =
            fold (\<lambda>msg total. total + EstimateTokenCount e (Content msg)) (Messages m) 0;
          threshold = contextThreshold e (GetMaxContextSize m)
      in totalTokens > threshold)"

text \<open>
  The first loop of \<open>squashHistory\<close>: index 0 is pinned when it is not from the user
  (\<open>continue\<close>), index 1 is pinned when it is not from the user and index 0 was pinned
  (\<open>break\<close>). \<open>None\<close> stands for a \<open>has...\<close> flag that stayed false.
\<close>

fun scanPinned ::
  "nat \<Rightarrow> ChatMessage list \<Rightarrow> ChatMessage option \<times> ChatMessage option
     \<Rightarrow> ChatMessage option \<times> ChatMessage option" where
  "scanPinned i [] pinned = pinned"
| "scanPinned i (msg # rest) (systemMessage, assistantBaseMessage) =
     (if i = 0 \<and> \<not> FromUser msg then
        scanPinned (i + 1) rest (Some msg, assistantBaseMessage)
      else if i = 1 \<and> \<not> FromUser msg \<and> systemMessage \<noteq> None then
        (systemMessage, Some msg)
      else scanPinned (i + 1) rest (systemMessage, assistantBaseMessage))"

text \<open>\<open>summarizeChatHistory\<close>: the role-tagged transcript, the prompt, the one-shot request.\<close>

fun chatLog :: "ChatMessage list \<Rightarrow> string" where
  "chatLog [] = []"
| "chatLog (msg # rest) =
     ''['' @ (if FromUser msg then ''User'' else ''Assistant'') @ '']: '' @ Content msg
       @ newline @ newline @ chatLog rest"

definition summarizationPrompt :: "ChatMessage list \<Rightarrow> string" where
  "summarizationPrompt messages =
     ''Below is a chat history between a user and an assistant. Please provide a concise summary of the key points, decisions, and context from this conversation. Focus on the most important information that would be needed to continue the conversation effectively:''
       @ newline @ newline @ chatLog messages"

definition summarizationMessage :: "env \<Rightarrow> event list \<Rightarrow> ChatMessage list \<Rightarrow> ChatMessage list" where
  "summarizationMessage e tr messages =
     [\<lparr> Content = summarizationPrompt messages, FromUser = True, Timestamp = timeNow e tr \<rparr>]"

definition summarizeChatHistory ::
  "env \<Rightarrow> Manager \<Rightarrow> event list \<Rightarrow> ChatMessage list \<Rightarrow> (string + string) \<times> event list" where
  "summarizeChatHistory e m tr messages =
     (let request = summarizationMessage e tr messages;
          model = GetOpenRouterModel m;
          tr1 = tr @ [AiRequest BackgroundCtx request model]
      in case GetResponseFromChatMessages e tr BackgroundCtx request model of
           Inl err \<Rightarrow> (Inl err, tr1)
         | Inr summary \<Rightarrow>
             (Inr (''CHAT HISTORY SUMMARY:'' @ newline @ summary),
              if Debug (Config m) then tr1 @ [DebugDump request summary] else tr1))"

text \<open>
  \<open>squashHistory\<close>: \<open>startIdx\<close> counts the pinned messages; the span
  \<open>m.Messages[startIdx : len(m.Messages)-1]\<close> is summarised when
  \<open>startIdx < len(m.Messages)-1\<close>; a failed summarisation returns at once.
\<close>

definition startIdx :: "Manager \<Rightarrow> int" where
  "startIdx m =
     (case scanPinned 0 (Messages m) (None, None) of
        (systemMessage, assistantBaseMessage) \<Rightarrow>
          (if systemMessage \<noteq> None then 1 else 0) +
          (if assistantBaseMessage \<noteq> None then 1 else 0))"

definition messagesToSummarize :: "Manager \<Rightarrow> ChatMessage list" where
  "messagesToSummarize m =
     drop (nat (startIdx m)) (take (nat (int (length (Messages m)) - 1)) (Messages m))"

definition squashHistory :: "env \<Rightarrow> Manager \<times> event list \<Rightarrow> Manager \<times> event list" where
  "squashHistory e = (\<lambda>(m, tr).
     case scanPinned 0 (Messages m) (None, None) of
       (systemMessage, assistantBaseMessage) \<Rightarrow>
         if startIdx m < int (length (Messages m)) - 1 then
           (case summarizeChatHistory e m tr (messagesToSummarize m) of
              (Inl err, tr1) \<Rightarrow>
                (m, tr1 @ [LogError (''Failed to summarize chat history: '' @ err)])
            | (Inr summarizedHistory, tr1) \<Rightarrow>
                (let newHistory =
                       (case systemMessage of Some s \<Rightarrow> [s] | None \<Rightarrow> []) @
                       (case assistantBaseMessage of Some b \<Rightarrow> [b] | None \<Rightarrow> []) @
                       [\<lparr> Content = summarizedHistory, FromUser = False,
                          Timestamp = timeNow e tr1 \<rparr>]
                 in (m\<lparr>Messages := newHistory\<rparr>, tr1)))
         else (m, tr))"

section \<open>Reflection log\<close>

definition reflectionLogLimit :: int where
  "reflectionLogLimit = 500"

text \<open>
  \<open>pruneReflectionLog\<close> keeps the last \<open>reflectionLogLimit\<close> entries and reports
  the number of dropped ones through \<open>logger.Info\<close>.
\<close>

definition pruneReflectionLog :: "Manager \<times> event list \<Rightarrow> Manager \<times> event list" where
  "pruneReflectionLog = (\<lambda>(m, tr).
     if reflectionLogLimit \<le> 0 then (m, tr)
     else if int (length (ReflectionLog m)) \<le> reflectionLogLimit then (m, tr)
     else
       let dropped = int (length (ReflectionLog m)) - reflectionLogLimit
       in (m\<lparr>ReflectionLog :=
               drop (nat (int (length (ReflectionLog m)) - reflectionLogLimit)) (ReflectionLog m)\<rparr>,
           tr @ [ReflectionLogTrimmed dropped]))"

text \<open>
  The append of \<open>processPendingReflections\<close>:
  \<open>m.ReflectionLog = append(m.ReflectionLog, reflection); m.pruneReflectionLog()\<close>.
\<close>

definition appendReflection ::
  "CommandReflection \<Rightarrow> Manager \<times> event list \<Rightarrow> Manager \<times> event list" where
  "appendReflection reflection = (\<lambda>(m, tr).
     pruneReflectionLog (m\<lparr>ReflectionLog := ReflectionLog m @ [reflection]\<rparr>, tr))"

text \<open>
  The specification's reading of the cap, written from its words: of a sequence of
  entries in the order they were appended, the \<open>n\<close> most recently appended ones, in their
  original order.
\<close>

definition spec_mostRecent :: "nat \<Rightarrow> 'a list \<Rightarrow> 'a list" where
  "spec_mostRecent n xs = rev (take n (rev xs))"

section \<open>Example collaborators\<close>

text \<open>A concrete environment and message constructor, used to instantiate the results.\<close>

definition exampleEnv :: env where
  "exampleEnv =
     \<lparr> GetResponseFromChatMessages = (\<lambda>tr c messages model. Inr ''mock response''),
       confirmedToExec = (\<lambda>tr command prompt edit. (True, command)),
       getTmuxPanesInXml = (\<lambda>tr. ''<tmux>mock pane content</tmux>''),
       parseAIResponse = (\<lambda>response. Inl ''no tags''),
       ExecWaitCapture = (\<lambda>tr command m. m),
       ctxErr = (\<lambda>tr. None),
       timeNow = (\<lambda>tr. length tr),
       EstimateTokenCount = (\<lambda>s. int (length s) div 4),
       contextThreshold = (\<lambda>n. (n * 4) div 5),
       watchPrompt = (\<lambda>m. \<lparr> Content = ''watch'', FromUser = False, Timestamp = 0 \<rparr>),
       chatAssistantPrompt = (\<lambda>m prepared. \<lparr> Content = ''assistant'', FromUser = False, Timestamp = 0 \<rparr>),
       HighlightCode = (\<lambda>lang code. code),
       Cosmetics = (\<lambda>s. s) \<rparr>"

definition exampleMsg :: "string \<Rightarrow> bool \<Rightarrow> ChatMessage" where
  "exampleMsg c u = \<lparr> Content = c, FromUser = u, Timestamp = 0 \<rparr>"

definition exampleReflection :: "nat \<Rightarrow> CommandReflection" where
  "exampleReflection i =
     \<lparr> Command = ''ls'', Output = [], ExitCode = int i, LessonsLearned = [], Alternative = [],
       AlternativeRationale = [], SuggestedActions = [], Timestamp_refl = 0 \<rparr>"

definition exampleHistory :: "ChatMessage list" where
  "exampleHistory =
     [exampleMsg ''system'' False, exampleMsg ''baseline'' False, exampleMsg ''A'' True,
      exampleMsg ''B'' False, exampleMsg ''C'' True, exampleMsg ''final'' True]"

definition failingEnv :: env where
  "failingEnv = exampleEnv\<lparr>GetResponseFromChatMessages := (\<lambda>tr c messages model. Inl ''timeout'')\<rparr>"

section \<open>Standard library and operating system\<close>

text \<open>
  The functions of Go's standard library that the confirmation code calls, as parameters:
  \<open>regexp.MatchString\<close> (\<open>Inl\<close> is the compile error of an invalid pattern),
  \<open>strings.ToLower\<close>, \<open>strings.TrimSpace\<close>, \<open>unicode.IsPrint\<close>,
  \<open>utf8.DecodeRune\<close> (the rune and its width in bytes) and the conversion
  \<open>string(buffer)\<close> of a rune slice.
\<close>

record stdlib =
  MatchString :: "string \<Rightarrow> string \<Rightarrow> string + bool"
  ToLower :: "string \<Rightarrow> string"
  TrimSpace :: "string \<Rightarrow> string"
  IsPrint :: "rune \<Rightarrow> bool"
  DecodeRune :: "byte list \<Rightarrow> rune \<times> nat"
  runesToString :: "rune list \<Rightarrow> string"

text \<open>
  The operating system as the confirmation code sees it: whether standard input is a
  terminal, whether raw mode can be entered, the environment, the editors on the path,
  and the outcome of each step of the temporary-file edit (\<open>Some\<close> or \<open>Inl\<close> is
  the error text).
\<close>

record osenv =
  IsTerminal :: bool
  MakeRaw :: "string option"
  Getenv :: "string \<Rightarrow> string"
  LookPath :: "string \<Rightarrow> bool"
  CreateTemp :: "string + string"
  WriteString :: "string option"
  CloseFile :: "string option"
  RunEditor :: "string \<Rightarrow> string \<Rightarrow> string option"
  ReadFile :: "string \<Rightarrow> string + string"

section \<open>Terminal input\<close>

text \<open>
  Standard input over time, as a list of ticks: a chunk of bytes that one read returns
  (never empty), a silence longer than the poll timeout, or an I/O failure. The end of
  the list is end of file. A \<open>bufio.Reader\<close> holds the bytes it has read ahead
  (\<open>buffered\<close>) and the input still to come; a multi-byte rune is taken to arrive
  within one chunk.
\<close>

datatype tick = Arrive byte "byte list" | Quiet | Broken string

datatype io_error = EOF | IOError string

record reader =
  buffered :: "byte list"
  stdin :: "tick list"

text \<open>
  \<open>waitForInput\<close>: \<open>unix.Poll\<close> for at most the timeout. A silence uses the
  timeout up and reports not ready (as \<open>EINTR\<close> does); pending bytes and end of file
  report ready without consuming anything; any other poll error is returned.
\<close>

fun waitForInput :: "tick list \<Rightarrow> (string + bool) \<times> tick list" where
  "waitForInput [] = (Inr True, [])"
| "waitForInput (Quiet # ts) = (Inr False, ts)"
| "waitForInput (Arrive b bs # ts) = (Inr True, Arrive b bs # ts)"
| "waitForInput (Broken err # ts) = (Inl err, ts)"

text \<open>The blocking read under a \<open>bufio.Reader\<close>: waits through silences.\<close>

fun fill :: "tick list \<Rightarrow> (io_error + byte list) \<times> tick list" where
  "fill [] = (Inl EOF, [])"
| "fill (Quiet # ts) = fill ts"
| "fill (Arrive b bs # ts) = (Inr (b # bs), ts)"
| "fill (Broken err # ts) = (Inl (IOError err), ts)"

definition ReadByte :: "reader \<Rightarrow> (io_error + byte) \<times> reader" where
  "ReadByte rd =
     (case buffered rd of
        b # rest \<Rightarrow> (Inr b, rd\<lparr>buffered := rest\<rparr>)
      | [] \<Rightarrow>
          (case fill (stdin rd) of
             (Inl err, ts) \<Rightarrow> (Inl err, rd\<lparr>stdin := ts\<rparr>)
           | (Inr bs, ts) \<Rightarrow> (Inr (hd bs), \<lparr> buffered = tl bs, stdin = ts \<rparr>)))"

text \<open>
  \<open>ReadRune\<close>: a byte below \<open>utf8.RuneSelf\<close> is the rune itself; otherwise
  \<open>utf8.DecodeRune\<close> decides the rune and how many bytes it takes.
\<close>

definition decodeBuffered :: "stdlib \<Rightarrow> byte list \<Rightarrow> rune \<times> byte list" where
  "decodeBuffered lib buf =
     (if (of_char (hd buf) :: nat) < 0x80 then (of_char (hd buf), tl buf)
      else case DecodeRune lib buf of (r, width) \<Rightarrow> (r, drop width buf))"

definition ReadRune :: "stdlib \<Rightarrow> reader \<Rightarrow> (io_error + rune) \<times> reader" where
  "ReadRune lib rd =
     (case buffered rd of
        b # rest \<Rightarrow>
          (case decodeBuffered lib (b # rest) of (r, buf) \<Rightarrow> (Inr r, rd\<lparr>buffered := buf\<rparr>))
      | [] \<Rightarrow>
          (case fill (stdin rd) of
             (Inl err, ts) \<Rightarrow> (Inl err, rd\<lparr>stdin := ts\<rparr>)
           | (Inr bs, ts) \<Rightarrow>
               (case decodeBuffered lib bs of
                  (r, buf) \<Rightarrow> (Inr r, \<lparr> buffered = buf, stdin = ts \<rparr>))))"

section \<open>Escape sequences\<close>

text \<open>
  The closure \<open>readNext\<close> of \<open>readEscapeSequence\<close>: when nothing is buffered it
  polls first; it then reads one byte and appends it to \<open>seq\<close>. End of file counts as
  not ready.
\<close>

definition readNext :: "reader \<Rightarrow> byte list \<Rightarrow> (string + bool) \<times> reader \<times> byte list" where
  "readNext rd seq =
     (let polled =
            (if length (buffered rd) = 0 then
               (case waitForInput (stdin rd) of (res, ts) \<Rightarrow> (res, rd\<lparr>stdin := ts\<rparr>))
             else (Inr True, rd))
      in case polled of
           (Inl err, rd1) \<Rightarrow> (Inl err, rd1, seq)
         | (Inr False, rd1) \<Rightarrow> (Inr False, rd1, seq)
         | (Inr True, rd1) \<Rightarrow>
             (case ReadByte rd1 of
                (Inl EOF, rd2) \<Rightarrow> (Inr False, rd2, seq)
              | (Inl (IOError err), rd2) \<Rightarrow> (Inl err, rd2, seq)
              | (Inr b, rd2) \<Rightarrow> (Inr True, rd2, seq @ [b])))"

text \<open>The input a reader still holds or expects; every successful read makes it smaller.\<close>

fun tickWeight :: "tick \<Rightarrow> nat" where
  "tickWeight (Arrive b bs) = Suc (Suc (length bs))"
| "tickWeight Quiet = 1"
| "tickWeight (Broken err) = 1"

definition pendingInput :: "reader \<Rightarrow> nat" where
  "pendingInput rd = length (buffered rd) + sum_list (map tickWeight (stdin rd))"

text \<open>
  The \<open>for\<close> loop of \<open>readEscapeSequence\<close> for \<open>ESC [\<close> and \<open>ESC O\<close>:
  a CSI sequence ends at a byte in \<open>0x40..0x7E\<close> from the third byte on, an SS3
  sequence at its third byte, and either ends when no further byte is ready. The result
  is the error, if any, the reader and the sequence.
\<close>

function escLoop :: "reader \<Rightarrow> byte list \<Rightarrow> string option \<times> reader \<times> byte list" where
  "escLoop rd seq =
     (if seq ! 1 = CHR ''['' \<and> length seq \<ge> 3 \<and>
         (of_char (last seq) :: nat) \<ge> 0x40 \<and> (of_char (last seq) :: nat) \<le> 0x7E
      then (None, rd, seq)
      else if seq ! 1 = CHR ''O'' \<and> length seq \<ge> 3 then (None, rd, seq)
      else
        (case readNext rd seq of
           (Inl err, rd1, seq1) \<Rightarrow> (Some err, rd1, seq1)
         | (Inr False, rd1, seq1) \<Rightarrow> (None, rd1, seq1)
         | (Inr True, rd1, seq1) \<Rightarrow> escLoop rd1 seq1))"
  by pat_completeness auto

text \<open>Termination of the loop: every byte read makes the pending input smaller.\<close>

lemma fill_weight:
  "fill ts = (Inr bs, ts') \<Longrightarrow>
   length bs + sum_list (map tickWeight ts') < sum_list (map tickWeight ts)"
  by (induction ts arbitrary: bs ts' rule: fill.induct) auto

lemma ReadByte_consumes:
  "ReadByte rd = (Inr b, rd1) \<Longrightarrow> pendingInput rd1 < pendingInput rd"
  by (auto simp: ReadByte_def pendingInput_def split: list.splits prod.splits sum.splits
        dest!: fill_weight)

lemma waitForInput_weight:
  "waitForInput ts = (res, ts') \<Longrightarrow> sum_list (map tickWeight ts') \<le> sum_list (map tickWeight ts)"
  by (induction ts rule: waitForInput.induct) auto

lemma readNext_consumes:
  "readNext rd seq = (Inr True, rd1, seq1) \<Longrightarrow> pendingInput rd1 < pendingInput rd"
proof -
  assume a: "readNext rd seq = (Inr True, rd1, seq1)"
  show ?thesis
  proof (cases "length (buffered rd) = 0")
    case True
    obtain res ts where w: "waitForInput (stdin rd) = (res, ts)"
      by (cases "waitForInput (stdin rd)")
    from a True w obtain b where rb: "ReadByte (rd\<lparr>stdin := ts\<rparr>) = (Inr b, rd1)"
      by (auto simp: readNext_def Let_def split: sum.splits bool.splits prod.splits
            io_error.splits if_splits)
    have "pendingInput (rd\<lparr>stdin := ts\<rparr>) \<le> pendingInput rd"
      using waitForInput_weight [OF w] by (simp add: pendingInput_def)
    then show ?thesis using ReadByte_consumes [OF rb] by simp
  next
    case False
    from a False obtain b where rb: "ReadByte rd = (Inr b, rd1)"
      by (auto simp: readNext_def Let_def split: sum.splits bool.splits prod.splits
            io_error.splits if_splits)
    then show ?thesis using ReadByte_consumes [OF rb] by simp
  qed
qed

termination escLoop
  by (relation "measure (\<lambda>(rd, seq). pendingInput rd)") (auto dest: readNext_consumes [OF sym])

declare escLoop.simps [simp del]


text \<open>
  \<open>readEscapeSequence\<close>: the sequence starts as \<open>[27]\<close>; one more byte is read;
  only \<open>ESC [\<close> and \<open>ESC O\<close> enter the loop.
\<close>

definition readEscapeSequence :: "reader \<Rightarrow> string option \<times> reader \<times> byte list" where
  "readEscapeSequence rd =
     (case readNext rd [CHR 0x1B] of
        (Inl err, rd1, seq) \<Rightarrow> (Some err, rd1, seq)
      | (Inr False, rd1, seq) \<Rightarrow> (None, rd1, seq)
      | (Inr True, rd1, seq) \<Rightarrow>
          if seq ! 1 = CHR ''['' \<or> seq ! 1 = CHR ''O'' then escLoop rd1 seq
          else (None, rd1, seq))"

section \<open>Line editor\<close>

text \<open>
  The slice operations of the editor. Go panics on a slice bound out of range, which is
  \<open>None\<close> here: \<open>deleteAt\<close> is \<open>append(b[:i], b[i+1:]...)\<close> and \<open>insertAt\<close> is
  the append, copy and store of \<open>insertRune\<close>.
\<close>

definition deleteAt :: "int \<Rightarrow> rune list \<Rightarrow> rune list option" where
  "deleteAt i b =
     (if 0 \<le> i \<and> i < int (length b) then Some (take (nat i) b @ drop (nat i + 1) b)
      else None)"

definition insertAt :: "int \<Rightarrow> rune \<Rightarrow> rune list \<Rightarrow> rune list option" where
  "insertAt i r b =
     (if 0 \<le> i \<and> i \<le> int (length b) then Some (take (nat i) b @ [r] @ drop (nat i) b)
      else None)"

datatype callback = RedrawCb | BeepCb

text \<open>
  \<open>handleEscapeSequence\<close>: the buffer and the cursor are passed and returned, with the
  closures it called. The switch on \<open>seq[2]\<close> under \<open>ESC [\<close> has no default case;
  the one under \<open>ESC O\<close> beeps.
\<close>

definition handleEscapeSequence ::
  "byte list \<Rightarrow> rune list \<times> int \<Rightarrow> ((rune list \<times> int) \<times> callback list) option" where
  "handleEscapeSequence seq = (\<lambda>(buffer, cursor).
     if length seq < 2 then Some ((buffer, cursor), [])
     else if seq ! 1 = CHR ''['' then
       (if length seq < 3 then Some ((buffer, cursor), [])
        else if seq ! 2 = CHR ''D'' then
          (if cursor > 0 then Some ((buffer, cursor - 1), [RedrawCb])
           else Some ((buffer, cursor), [BeepCb]))
        else if seq ! 2 = CHR ''C'' then
          (if cursor < int (length buffer) then Some ((buffer, cursor + 1), [RedrawCb])
           else Some ((buffer, cursor), [BeepCb]))
        else if seq ! 2 = CHR ''A'' \<or> seq ! 2 = CHR ''B'' then Some ((buffer, cursor), [BeepCb])
        else if seq ! 2 = CHR ''H'' then
          (if cursor \<noteq> 0 then Some ((buffer, 0), [RedrawCb])
           else Some ((buffer, cursor), [BeepCb]))
        else if seq ! 2 = CHR ''F'' then
          (if cursor \<noteq> int (length buffer) then Some ((buffer, int (length buffer)), [RedrawCb])
           else Some ((buffer, cursor), [BeepCb]))
        else if seq ! 2 = CHR ''3'' then
          (if length seq \<ge> 4 \<and> seq ! 3 = CHR ''~'' then
             (if cursor < int (length buffer) then
                (case deleteAt cursor buffer of
                   None \<Rightarrow> None
                 | Some buffer' \<Rightarrow> Some ((buffer', cursor), [RedrawCb]))
              else Some ((buffer, cursor), [BeepCb]))
           else Some ((buffer, cursor), []))
        else Some ((buffer, cursor), []))
     else if seq ! 1 = CHR ''O'' then
       (if length seq < 3 then Some ((buffer, cursor), [])
        else if seq ! 2 = CHR ''H'' then
          (if cursor \<noteq> 0 then Some ((buffer, 0), [RedrawCb])
           else Some ((buffer, cursor), [BeepCb]))
        else if seq ! 2 = CHR ''F'' then
          (if cursor \<noteq> int (length buffer) then Some ((buffer, int (length buffer)), [RedrawCb])
           else Some ((buffer, cursor), [BeepCb]))
        else Some ((buffer, cursor), [BeepCb]))
     else Some ((buffer, cursor), [BeepCb]))"

fun callbackEvent :: "rune list \<Rightarrow> int \<Rightarrow> callback \<Rightarrow> event" where
  "callbackEvent buffer cursor RedrawCb = Redraw buffer cursor"
| "callbackEvent buffer cursor BeepCb = Beep"

definition crlf :: string where
  "crlf = [CHR 0x0D, CHR 0x0A]"

text \<open>
  What a Go call comes to: it returns, or it panics. The result of
  \<open>readConfirmationInput\<close> is \<open>Inl\<close> the error or \<open>Inr\<close> the input and the
  cancelled flag.
\<close>

datatype 'a go = Return 'a | Panicked

type_synonym confirmation = "string + string \<times> bool"

text \<open>
  The raw-mode \<open>for\<close> loop of \<open>readConfirmationInput\<close>. It reads until Enter, a
  cancel key, end of file or an error; each round costs one unit of fuel, and \<open>None\<close>
  says the fuel ran out before the loop returned.
\<close>

fun readLoop ::
  "nat \<Rightarrow> stdlib \<Rightarrow> rune list \<times> int \<Rightarrow> reader \<Rightarrow> event list
     \<Rightarrow> (confirmation go \<times> reader \<times> event list) option" where
  "readLoop 0 lib st rd tr = None"
| "readLoop (Suc n) lib (buffer, cursor) rd tr =
     (case ReadRune lib rd of
        (Inl EOF, rd1) \<Rightarrow>
          Some (Return (Inr (runesToString lib buffer, False)), rd1, tr @ [TermOut crlf])
      | (Inl (IOError err), rd1) \<Rightarrow> Some (Return (Inl err), rd1, tr)
      | (Inr r, rd1) \<Rightarrow>
          if r = 13 \<or> r = 10 then
            Some (Return (Inr (runesToString lib buffer, False)), rd1, tr @ [TermOut crlf])
          else if r = 3 then Some (Return (Inr ([], True)), rd1, tr @ [TermOut crlf])
          else if r = 4 then
            (if length buffer = 0 then
               Some (Return (Inr ([], True)), rd1, tr @ [TermOut crlf])
             else readLoop n lib (buffer, cursor) rd1 (tr @ [Beep]))
          else if r = 127 \<or> r = 8 then
            (if cursor > 0 then
               (case deleteAt (cursor - 1) buffer of
                  None \<Rightarrow> Some (Panicked, rd1, tr)
                | Some buffer' \<Rightarrow>
                    readLoop n lib (buffer', cursor - 1) rd1
                      (tr @ [Redraw buffer' (cursor - 1)]))
             else readLoop n lib (buffer, cursor) rd1 (tr @ [Beep]))
          else if r = 27 then
            (case readEscapeSequence rd1 of
               (Some seqErr, rd2, seq) \<Rightarrow> Some (Return (Inl seqErr), rd2, tr)
             | (None, rd2, seq) \<Rightarrow>
                 if length seq = 1 then
                   Some (Return (Inr ([], True)), rd2, tr @ [TermOut crlf])
                 else
                   (case handleEscapeSequence seq (buffer, cursor) of
                      None \<Rightarrow> Some (Panicked, rd2, tr)
                    | Some ((buffer', cursor'), calls) \<Rightarrow>
                        readLoop n lib (buffer', cursor') rd2
                          (tr @ map (callbackEvent buffer' cursor') calls)))
          else if IsPrint lib r then
            (if length buffer \<ge> 4096 then readLoop n lib (buffer, cursor) rd1 (tr @ [Beep])
             else
               (case insertAt cursor r buffer of
                  None \<Rightarrow> Some (Panicked, rd1, tr)
                | Some buffer' \<Rightarrow>
                    readLoop n lib (buffer', cursor + 1) rd1
                      (tr @ [Redraw buffer' (cursor + 1)])))
          else readLoop n lib (buffer, cursor) rd1 (tr @ [Beep]))"

text \<open>
  \<open>reader.ReadString\<close> with the newline delimiter, in the branch for a standard input
  that is no terminal: the bytes up to and including the delimiter, or what was read
  before an error.
\<close>

fun splitAtDelim :: "byte \<Rightarrow> byte list \<Rightarrow> (byte list \<times> byte list) option" where
  "splitAtDelim d [] = None"
| "splitAtDelim d (b # bs) =
     (if b = d then Some ([b], bs)
      else case splitAtDelim d bs of
             None \<Rightarrow> None
           | Some (line, rest) \<Rightarrow> Some (b # line, rest))"

fun readStringTicks ::
  "byte \<Rightarrow> byte list \<Rightarrow> tick list \<Rightarrow> (byte list \<times> io_error option) \<times> reader" where
  "readStringTicks d acc [] = ((acc, Some EOF), \<lparr> buffered = [], stdin = [] \<rparr>)"
| "readStringTicks d acc (Quiet # ts) = readStringTicks d acc ts"
| "readStringTicks d acc (Broken err # ts) =
     ((acc, Some (IOError err)), \<lparr> buffered = [], stdin = ts \<rparr>)"
| "readStringTicks d acc (Arrive b bs # ts) =
     (case splitAtDelim d (b # bs) of
        Some (line, rest) \<Rightarrow> ((acc @ line, None), \<lparr> buffered = rest, stdin = ts \<rparr>)
      | None \<Rightarrow> readStringTicks d (acc @ b # bs) ts)"

definition ReadString :: "byte \<Rightarrow> reader \<Rightarrow> (byte list \<times> io_error option) \<times> reader" where
  "ReadString d rd =
     (case splitAtDelim d (buffered rd) of
        Some (line, rest) \<Rightarrow> ((line, None), rd\<lparr>buffered := rest\<rparr>)
      | None \<Rightarrow> readStringTicks d (buffered rd) (stdin rd))"

definition TrimRight :: "string \<Rightarrow> string \<Rightarrow> string" where
  "TrimRight s cutset = rev (dropWhile (\<lambda>c. c \<in> set cutset) (rev s))"

text \<open>
  \<open>readConfirmationInput\<close>. Every call makes a new \<open>bufio.Reader\<close> on standard
  input, so bytes that the reader had read ahead when the call returns are lost: the
  input handed back is the reader's \<open>stdin\<close>.
\<close>

definition readConfirmationInput ::
  "nat \<Rightarrow> stdlib \<Rightarrow> osenv \<Rightarrow> string \<Rightarrow> tick list \<Rightarrow> event list
     \<Rightarrow> (confirmation go \<times> tick list \<times> event list) option" where
  "readConfirmationInput fuel lib os prompt inp tr =
     (if \<not> IsTerminal os then
        (case ReadString (CHR 0x0A) \<lparr> buffered = [], stdin = inp \<rparr> of
           ((line, err), rd) \<Rightarrow>
             (case err of
                Some (IOError e) \<Rightarrow> Some (Return (Inl e), stdin rd, tr @ [TermOut prompt])
              | _ \<Rightarrow>
                  Some (Return (Inr (TrimRight line crlf, False)), stdin rd,
                        tr @ [TermOut prompt])))
      else
        (case MakeRaw os of
           Some err \<Rightarrow> Some (Return (Inl err), inp, tr)
         | None \<Rightarrow>
             (case readLoop fuel lib ([], 0) \<lparr> buffered = [], stdin = inp \<rparr>
                     (tr @ [TermOut prompt]) of
                None \<Rightarrow> None
              | Some (res, rd, tr1) \<Rightarrow> Some (res, stdin rd, tr1))))"

section \<open>Whitelist and confirmation\<close>

text \<open>
  The two loops of \<open>whitelistCheck\<close>. Empty patterns are skipped; the whitelist loop
  stops at the first match; an invalid pattern ends the check with an error.
\<close>

fun whitelistLoop :: "stdlib \<Rightarrow> string \<Rightarrow> string list \<Rightarrow> string + bool" where
  "whitelistLoop lib command [] = Inr False"
| "whitelistLoop lib command (pattern # rest) =
     (if pattern = [] then whitelistLoop lib command rest
      else case MatchString lib pattern command of
             Inl err \<Rightarrow>
               Inl (''invalid whitelist regex pattern '' @ [CHR 0x27] @ pattern @ [CHR 0x27]
                      @ '': '' @ err)
           | Inr match \<Rightarrow> if match then Inr True else whitelistLoop lib command rest)"

fun blacklistLoop :: "stdlib \<Rightarrow> string \<Rightarrow> string list \<Rightarrow> string + bool" where
  "blacklistLoop lib command [] = Inr False"
| "blacklistLoop lib command (pattern # rest) =
     (if pattern = [] then blacklistLoop lib command rest
      else case MatchString lib pattern command of
             Inl err \<Rightarrow>
               Inl (''invalid blacklist regex pattern '' @ [CHR 0x27] @ pattern @ [CHR 0x27]
                      @ '': '' @ err)
           | Inr match \<Rightarrow> if match then Inr True else blacklistLoop lib command rest)"

definition whitelistCheck :: "stdlib \<Rightarrow> Manager \<Rightarrow> string \<Rightarrow> bool \<times> string option" where
  "whitelistCheck lib m command =
     (case whitelistLoop lib command (WhitelistPatterns (Config m)) of
        Inl err \<Rightarrow> (False, Some err)
      | Inr isWhitelisted \<Rightarrow>
          if \<not> isWhitelisted then (False, None)
          else
            (case blacklistLoop lib command (BlacklistPatterns (Config m)) of
               Inl err \<Rightarrow> (False, Some err)
             | Inr blacklisted \<Rightarrow> if blacklisted then (False, None) else (True, None)))"

text \<open>
  The \<open>edit\<close> answer: pick an editor, write the command to a temporary file, run the
  editor on it and read the file back. The deferred removal of the file runs on every
  return after the file was created.
\<close>

definition pickEditor :: "osenv \<Rightarrow> string" where
  "pickEditor os =
     (let editor = Getenv os ''EDITOR'';
          editor = (if editor = [] then Getenv os ''VISUAL'' else editor)
      in if editor = [] then
           (case filter (LookPath os) [''vim'', ''vi'', ''nano'', ''emacs''] of
              [] \<Rightarrow> []
            | e # _ \<Rightarrow> e)
         else editor)"

definition editCommand ::
  "stdlib \<Rightarrow> osenv \<Rightarrow> string \<Rightarrow> event list \<Rightarrow> (bool \<times> string) \<times> event list" where
  "editCommand lib os command tr =
     (let editor = pickEditor os in
      if editor = [] then
        ((False, []),
         tr @ [TermOut (''Error: No editor found. Please set the EDITOR environment variable.'' @ newline)])
      else
        (case CreateTemp os of
           Inl err \<Rightarrow>
             ((False, []), tr @ [TermOut (''Error creating temporary file: '' @ err @ newline)])
         | Inr tmpFile \<Rightarrow>
             (case WriteString os of
                Some err \<Rightarrow>
                  ((False, []),
                   tr @ [TermOut (''Error writing to temporary file: '' @ err @ newline),
                         RemoveFile tmpFile])
              | None \<Rightarrow>
                  (case CloseFile os of
                     Some err \<Rightarrow>
                       ((False, []),
                        tr @ [TermOut (''Error closing temporary file: '' @ err @ newline),
                              RemoveFile tmpFile])
                   | None \<Rightarrow>
                       (case RunEditor os editor tmpFile of
                          Some err \<Rightarrow>
                            ((False, []),
                             tr @ [EditorRun editor tmpFile,
                                   TermOut (''Error running editor: '' @ err @ newline),
                                   RemoveFile tmpFile])
                        | None \<Rightarrow>
                            (case ReadFile os tmpFile of
                               Inl err \<Rightarrow>
                                 ((False, []),
                                  tr @ [EditorRun editor tmpFile,
                                        TermOut (''Error reading edited command: '' @ err @ newline),
                                        RemoveFile tmpFile])
                             | Inr editedBytes \<Rightarrow>
                                 (let editedCommand = TrimSpace lib editedBytes in
                                  if editedCommand \<noteq> [] then
                                    ((True, editedCommand),
                                     tr @ [EditorRun editor tmpFile, RemoveFile tmpFile])
                                  else
                                    ((False, []),
                                     tr @ [EditorRun editor tmpFile, RemoveFile tmpFile]))))))))"

text \<open>
  \<open>confirmedToExecFn\<close>: the session, standard input and the events are passed and
  returned. A whitelisted command returns at once. Otherwise the prompt is read and the
  answer interpreted (\<open>interpretConfirmation\<close>, the part of the function after the call
  of \<open>readConfirmationInput\<close>); an answer that is not recognised asks again, which is
  the argument \<open>retry\<close>. Each round costs one unit of fuel. The colour of the prompt
  is left out.
\<close>

definition promptText :: "string \<Rightarrow> bool \<Rightarrow> string" where
  "promptText prompt edit =
     (if edit then prompt @ '' [Y]es/No/Edit: '' else prompt @ '' [Y]es/No: '')"

definition interpretConfirmation ::
  "stdlib \<Rightarrow> osenv \<Rightarrow> string \<Rightarrow> Manager
     \<Rightarrow> (Manager \<times> tick list \<times> event list
           \<Rightarrow> ((bool \<times> string) go \<times> Manager \<times> tick list \<times> event list) option)
     \<Rightarrow> (confirmation go \<times> tick list \<times> event list) option
     \<Rightarrow> ((bool \<times> string) go \<times> Manager \<times> tick list \<times> event list) option" where
  "interpretConfirmation lib os command m retry res =
     (case res of
        None \<Rightarrow> None
      | Some (Panicked, inp1, tr1) \<Rightarrow> Some (Panicked, m, inp1, tr1)
      | Some (Return (Inl err), inp1, tr1) \<Rightarrow>
          Some (Return (False, []), m, inp1,
                tr1 @ [TermOut (''Error reading confirmation: '' @ err @ newline)])
      | Some (Return (Inr (confirmInput, cancelled)), inp1, tr1) \<Rightarrow>
          if cancelled then Some (Return (False, []), m\<lparr>Status := []\<rparr>, inp1, tr1)
          else
            let answer = TrimSpace lib (ToLower lib confirmInput);
                answer = (if answer = [] then ''y'' else answer)
            in if answer \<in> set [''y'', ''yes'', ''ok'', ''sure''] then
                 Some (Return (True, command), m, inp1, tr1)
               else if answer \<in> set [''e'', ''edit''] then
                 (case editCommand lib os command tr1 of
                    (res, tr2) \<Rightarrow> Some (Return res, m, inp1, tr2))
               else if answer \<in> set [''n'', ''no'', ''cancel''] then
                 Some (Return (False, []), m, inp1, tr1)
               else retry (m, inp1, tr1))"

fun confirmedToExecFn ::
  "nat \<Rightarrow> stdlib \<Rightarrow> osenv \<Rightarrow> string \<Rightarrow> string \<Rightarrow> bool \<Rightarrow> Manager \<times> tick list \<times> event list
     \<Rightarrow> ((bool \<times> string) go \<times> Manager \<times> tick list \<times> event list) option" where
  "confirmedToExecFn 0 lib os command prompt edit st = None"
| "confirmedToExecFn (Suc n) lib os command prompt edit (m, inp, tr) =
     (if fst (whitelistCheck lib m command) then Some (Return (True, command), m, inp, tr)
      else
        interpretConfirmation lib os command m
          (\<lambda>st. confirmedToExecFn n lib os command prompt edit st)
          (readConfirmationInput n lib os (promptText prompt edit) inp tr))"

text \<open>
  Example instances: a matcher that treats a pattern as a literal to be found anywhere in
  the command, with \<open>(\<close> as the one invalid pattern; ASCII-only text functions; a
  terminal in which raw mode works.
\<close>

fun containsAt :: "string \<Rightarrow> string \<Rightarrow> bool" where
  "containsAt [] s = True"
| "containsAt (p # ps) [] = False"
| "containsAt (p # ps) (c # cs) = (p = c \<and> containsAt ps cs)"

fun containsStr :: "string \<Rightarrow> string \<Rightarrow> bool" where
  "containsStr p [] = containsAt p []"
| "containsStr p (c # cs) = (containsAt p (c # cs) \<or> containsStr p cs)"

definition exampleLib :: stdlib where
  "exampleLib =
     \<lparr> MatchString = (\<lambda>pattern s.
         if pattern = ''('' then Inl ''missing closing )'' else Inr (containsStr pattern s)),
       ToLower = (\<lambda>s. s),
       TrimSpace = (\<lambda>s. filter (\<lambda>c. c \<noteq> CHR '' '') s),
       IsPrint = (\<lambda>r. 32 \<le> r \<and> r < 127),
       DecodeRune = (\<lambda>bs. (65533, 1)),
       runesToString = map (\<lambda>r. char_of (unat r)) \<rparr>"

definition exampleOs :: osenv where
  "exampleOs =
     \<lparr> IsTerminal = True, MakeRaw = None, Getenv = (\<lambda>name. []),
       LookPath = (\<lambda>name. name = ''vi''), CreateTemp = Inr ''/tmp/tmuxai-edit-1.sh'',
       WriteString = None, CloseFile = None, RunEditor = (\<lambda>editor file. None),
       ReadFile = (\<lambda>file. Inr ''ls -la'') \<rparr>"

text \<open>
  The bytes a reader can deliver without waiting past a silence: what it has buffered and
  the chunks that arrive before the next silence, failure or end of input.
\<close>

fun arrivals :: "tick list \<Rightarrow> byte list" where
  "arrivals (Arrive b bs # ts) = b # bs @ arrivals ts"
| "arrivals ts = []"

definition available :: "reader \<Rightarrow> byte list" where
  "available rd = buffered rd @ arrivals (stdin rd)"

definition whitelistedManager :: "string list \<Rightarrow> string list \<Rightarrow> Manager" where
  "whitelistedManager wl bl =
     exampleManager\<lparr>Config := (Config exampleManager)\<lparr>WhitelistPatterns := wl,
                                                      BlacklistPatterns := bl\<rparr>\<rparr>"

section \<open>Action state machine\<close>

text \<open>\<open>ctx.Err()\<close>: only the caller's context can be cancelled while a turn runs.\<close>

definition ctx_Err :: "env \<Rightarrow> ctx \<Rightarrow> event list \<Rightarrow> ctx_error option" where
  "ctx_Err e c tr = (case c of BackgroundCtx \<Rightarrow> None | CallerCtx \<Rightarrow> ctxErr e tr)"

text \<open>
  The first part of \<open>ProcessUserMessage\<close>, up to the parsed response: the squash
  when the history is too large, the early exit on a cancelled context, the request to
  the model and its error paths, the status check and the parse. \<open>Inl\<close> is a return
  of the function (its result, the session and the events); \<open>Inr\<close> carries the parsed
  response with the two messages of the turn.
\<close>

definition askModel ::
  "env \<Rightarrow> ctx \<Rightarrow> string \<Rightarrow> Manager \<times> event list
     \<Rightarrow> (bool \<times> Manager \<times> event list)
         + (AIResponse \<times> ChatMessage \<times> ChatMessage \<times> Manager \<times> event list)" where
  "askModel e c message = (\<lambda>(m0, tr0).
     case (if needSquash e m0 then
             squashHistory e (m0, tr0 @ [Println ''Exceeded context size, squashing history...''])
           else (m0, tr0)) of
       (m, tr) \<Rightarrow>
         if ctx_Err e c tr \<noteq> None then Inl (False, m, tr)
         else
           let currentTmuxWindow = getTmuxPanesInXml e tr;
               execPaneEnv =
                 (if \<not> IsSubShell (ExecPane m) then
                    ''Keep in mind, you are working within the shell: '' @ Shell (ExecPane m)
                      @ '' and OS: '' @ OS (ExecPane m)
                  else []);
               currentMessage =
                 \<lparr> Content = currentTmuxWindow @ newline @ newline @ execPaneEnv @ newline
                               @ newline @ message,
                   FromUser = True, Timestamp = timeNow e tr \<rparr>;
               history =
                 (if WatchMode m then [watchPrompt e m]
                  else if IsPrepared (ExecPane m) then [chatAssistantPrompt e m True]
                  else [chatAssistantPrompt e m False]) @ Messages m;
               sending = history @ [currentMessage];
               model = GetOpenRouterModel m;
               tr1 = tr @ [AiRequest c sending model]
           in case GetResponseFromChatMessages e tr c sending model of
                Inl err \<Rightarrow>
                  if ctx_Err e c tr1 = Some Canceled then Inl (False, m, tr1)
                  else
                    Inl (False, m,
                         tr1 @ [TermOut (''Failed to get response from AI: '' @ err @ newline)]
                           @ (if Debug (Config m) then [DebugDump sending (''ERROR: '' @ err)]
                              else []))
              | Inr response \<Rightarrow>
                  if Status m = [] then Inl (False, m, tr1)
                  else
                    (case parseAIResponse e response of
                       Inl err \<Rightarrow>
                         Inl (False, m\<lparr>Status := []\<rparr>,
                              tr1 @ [TermOut (''Failed to parse AI response: '' @ err @ newline)]
                                @ (if Debug (Config m) then
                                     [DebugDump sending (''PARSE ERROR: '' @ response)]
                                   else []))
                     | Inr r \<Rightarrow>
                         (let tr2 = tr1 @ (if Debug (Config m) then [DebugDump sending response]
                                           else []);
                              responseMsg =
                                \<lparr> Content = response, FromUser = False,
                                  Timestamp = timeNow e tr2 \<rparr>
                          in Inr (r, currentMessage, responseMsg, m, tr2))))"

text \<open>
  The loop over \<open>r.ExecCommand\<close>. The result \<open>False\<close> is the \<open>return false\<close>
  after a rejected command; \<open>True\<close> says the loop ran to its end.
\<close>

fun execCommands ::
  "env \<Rightarrow> string list \<Rightarrow> Manager \<times> event list \<Rightarrow> bool \<times> Manager \<times> event list" where
  "execCommands e [] (m, tr) = (True, m, tr)"
| "execCommands e (execCommand # rest) (m, tr) =
     (let tr1 = tr @ [Println (HighlightCode e ''sh'' execCommand)];
          asked =
            (if GetExecConfirm m then
               (case confirmedToExec e tr1 execCommand ''Execute this command?'' True of
                  (isSafe, command) \<Rightarrow>
                    (isSafe, command, tr1 @ [Confirm execCommand ''Execute this command?'' True]))
             else (True, execCommand, tr1))
      in case asked of
           (isSafe, command, tr2) \<Rightarrow>
             if isSafe then
               (let tr3 = tr2 @ [Println (''Executing command: '' @ command)] in
                if IsPrepared (ExecPane m) then
                  execCommands e rest (ExecWaitCapture e tr3 command m, tr3 @ [ExecWait command])
                else
                  execCommands e rest
                    (m, tr3 @ [SendToPane (Id_pane (ExecPane m)) command True, Sleep 1]))
             else (False, m\<lparr>Status := []\<rparr>, tr2))"

text \<open>
  The preview loop of the \<open>SendKeys\<close> block; \<open>None\<close> is its \<open>return false\<close>
  when the status is empty.
\<close>

fun keysPreview :: "env \<Rightarrow> Manager \<Rightarrow> string list \<Rightarrow> string \<Rightarrow> string option" where
  "keysPreview e m [] preview = Some preview"
| "keysPreview e m (sendKey # rest) preview =
     (let code = HighlightCode e ''txt'' sendKey;
          preview1 = (if rest = [] then preview @ code else preview @ code @ newline)
      in if Status m = [] then None else keysPreview e m rest preview1)"

fun sendEachKey :: "Manager \<Rightarrow> string list \<Rightarrow> event list \<Rightarrow> event list" where
  "sendEachKey m [] tr = tr"
| "sendEachKey m (sendKey # rest) tr =
     sendEachKey m rest
       (tr @ [Println (''Sending keys: '' @ sendKey),
              SendToPane (Id_pane (ExecPane m)) sendKey False, Sleep 1])"

definition processSendKeys ::
  "env \<Rightarrow> AIResponse \<Rightarrow> Manager \<times> event list \<Rightarrow> bool \<times> Manager \<times> event list" where
  "processSendKeys e r = (\<lambda>(m, tr).
     if length (SendKeys r) > 0 then
       (case keysPreview e m (SendKeys r) (''Keys to send:'' @ newline) of
          None \<Rightarrow> (False, m, tr)
        | Some preview \<Rightarrow>
            (let tr1 = tr @ [Println preview];
                 confirmMessage =
                   (if length (SendKeys r) > 1 then ''Send all these keys?''
                    else ''Send this key?'')
             in if GetSendKeysConfirm m then
                  (if fst (confirmedToExec e tr1 ''keys shown above'' confirmMessage True) then
                     (True, m,
                      sendEachKey m (SendKeys r)
                        (tr1 @ [Confirm ''keys shown above'' confirmMessage True]))
                   else
                     (False, m\<lparr>Status := []\<rparr>,
                      tr1 @ [Confirm ''keys shown above'' confirmMessage True]))
                else (True, m, sendEachKey m (SendKeys r) tr1)))
     else (True, m, tr))"

text \<open>
  The part of \<open>ProcessUserMessage\<close> between the guardrail check and the
  \<open>ExecPaneSeemsBusy\<close> block: the message is printed, the turn is appended to the
  history unless the response is a busy signal or a no-comment, the commands are run and
  the keys are sent.
\<close>

definition actBeforeBusy ::
  "env \<Rightarrow> AIResponse \<Rightarrow> ChatMessage \<Rightarrow> ChatMessage \<Rightarrow> Manager \<times> event list
     \<Rightarrow> bool \<times> Manager \<times> event list" where
  "actBeforeBusy e r currentMessage responseMsg = (\<lambda>(m, tr).
     let tr1 = tr @ (if Message r \<noteq> [] then [TermOut (Cosmetics e (Message r) @ newline)]
                     else []);
         m1 = (if ExecPaneSeemsBusy r \<or> NoComment r then m
               else m\<lparr>Messages := Messages m @ [currentMessage, responseMsg]\<rparr>)
     in case execCommands e (ExecCommand r) (m1, tr1) of
          (False, m2, tr2) \<Rightarrow> (False, m2, tr2)
        | (True, m2, tr2) \<Rightarrow> processSendKeys e r (m2, tr2))"

text \<open>The \<open>PasteMultilineContent\<close> block; \<open>False\<close> is its \<open>return false\<close>.\<close>

definition pasteMultiline ::
  "env \<Rightarrow> AIResponse \<Rightarrow> Manager \<times> event list \<Rightarrow> bool \<times> Manager \<times> event list" where
  "pasteMultiline e r = (\<lambda>(m, tr).
     if PasteMultilineContent r \<noteq> [] then
       (let tr1 = tr @ [TermOut (HighlightCode e ''txt'' (PasteMultilineContent r) @ newline)];
            asked =
              (if GetPasteMultilineConfirm m then
                 (fst (confirmedToExec e tr1 (PasteMultilineContent r)
                         ''Paste multiline content?'' False),
                  tr1 @ [Confirm (PasteMultilineContent r) ''Paste multiline content?'' False])
               else (True, tr1))
        in case asked of
             (isSafe, tr2) \<Rightarrow>
               if isSafe then
                 (True, m,
                  tr2 @ [Println ''Pasting...'',
                         SendToPane (Id_pane (ExecPane m)) (PasteMultilineContent r) True,
                         Sleep 1])
               else (False, m\<lparr>Status := []\<rparr>, tr2))
     else (True, m, tr))"

text \<open>
  Modelled from the spec: \<open>Countdown\<close>, a method of \<open>Manager\<close> that is not
  among the sources, displays a countdown of the given number of seconds; it changes
  nothing in the session.
\<close>

definition Countdown :: "int \<Rightarrow> event list \<Rightarrow> event list" where
  "Countdown seconds tr = tr @ [CountdownEv seconds]"

definition busyPrompt :: string where
  "busyPrompt = ''waited for 5 more seconds, here is the current pane(s) content''"

definition updatePrompt :: string where
  "updatePrompt = ''sending updated pane(s) content''"

text \<open>
  \<open>ProcessUserMessage\<close>. The function calls itself after a guardrail violation, after
  the busy countdown (with a fresh background context) and at its end outside watch mode;
  nothing in the source bounds the depth, so each call costs one unit of fuel and
  \<open>None\<close> says the fuel ran out. The order of the blocks is the order of the source:
  commands, keys, busy wait, paste, then the flags.
\<close>

fun ProcessUserMessage ::
  "nat \<Rightarrow> env \<Rightarrow> ctx \<Rightarrow> string \<Rightarrow> Manager \<times> event list
     \<Rightarrow> (bool \<times> Manager \<times> event list) option" where
  "ProcessUserMessage 0 e c message st = None"
| "ProcessUserMessage (Suc n) e c message st =
     (case askModel e c message st of
        Inl res \<Rightarrow> Some res
      | Inr (r, currentMessage, responseMsg, m, tr) \<Rightarrow>
          (case aiFollowedGuidelines m r of
             (guidelineError, validResponse) \<Rightarrow>
               if \<not> validResponse then
                 ProcessUserMessage n e c guidelineError
                   (m\<lparr>Messages := Messages m @ [currentMessage, responseMsg]\<rparr>,
                    tr @ [Println ''AI didn't follow guidelines, trying again...''])
               else
                 (case actBeforeBusy e r currentMessage responseMsg (m, tr) of
                    (False, m1, tr1) \<Rightarrow> Some (False, m1, tr1)
                  | (True, m1, tr1) \<Rightarrow>
                      (case (if ExecPaneSeemsBusy r then
                               ProcessUserMessage n e BackgroundCtx busyPrompt
                                 (m1, Countdown (GetWaitInterval m1) tr1)
                             else Some (False, m1, tr1)) of
                         None \<Rightarrow> None
                       | Some (True, m2, tr2) \<Rightarrow> Some (True, m2, tr2)
                       | Some (False, m2, tr2) \<Rightarrow>
                           (case pasteMultiline e r (m2, tr2) of
                              (False, m3, tr3) \<Rightarrow> Some (False, m3, tr3)
                            | (True, m3, tr3) \<Rightarrow>
                                if RequestAccomplished r then
                                  Some (True, m3\<lparr>Status := []\<rparr>, tr3)
                                else if WaitingForUserResponse r then
                                  Some (False, m3\<lparr>Status := ''waiting''\<rparr>, tr3)
                                else if NoComment r then Some (False, m3, tr3)
                                else if \<not> WatchMode m3 then
                                  ProcessUserMessage n e c updatePrompt (m3, tr3)
                                else Some (False, m3, tr3))))))"

text \<open>The events that send something to the exec pane.\<close>

fun isPaneSend :: "event \<Rightarrow> bool" where
  "isPaneSend (SendToPane pane command enter) = True"
| "isPaneSend (ExecWait command) = True"
| "isPaneSend ev = False"

text \<open>
  Example run: in watch mode, the model first answers with a paste and the busy flag,
  then, asked again after the countdown, says it waits for the user.
\<close>

definition busyPasteResponse :: AIResponse where
  "busyPasteResponse =
     emptyResponse\<lparr>PasteMultilineContent := ''hello'', ExecPaneSeemsBusy := True\<rparr>"

definition waitingResponse :: AIResponse where
  "waitingResponse = emptyResponse\<lparr>WaitingForUserResponse := True\<rparr>"

definition busyPasteEnv :: env where
  "busyPasteEnv =
     exampleEnv
       \<lparr> GetResponseFromChatMessages :=
           (\<lambda>tr c messages model. if tr = [] then Inr ''first'' else Inr ''second''),
         getTmuxPanesInXml := (\<lambda>tr. ''<tmux/>''),
         parseAIResponse :=
           (\<lambda>response. if response = ''first'' then Inr busyPasteResponse
                       else Inr waitingResponse) \<rparr>"

definition subshellManager :: Manager where
  "subshellManager =
     exampleManager\<lparr>ExecPane := (ExecPane exampleManager)\<lparr>IsSubShell := True\<rparr>\<rparr>"

definition watchManager :: Manager where
  "watchManager = subshellManager\<lparr>WatchMode := True\<rparr>"

text \<open>Example run: the model asks for one command and the user declines it.\<close>

definition execResponse :: AIResponse where
  "execResponse = emptyResponse\<lparr>ExecCommand := [''rm -rf /'']\<rparr>"

definition denyingEnv :: env where
  "denyingEnv =
     exampleEnv
       \<lparr> confirmedToExec := (\<lambda>tr command prompt edit. (False, [])),
         getTmuxPanesInXml := (\<lambda>tr. ''<tmux/>''),
         parseAIResponse := (\<lambda>response. Inr execResponse) \<rparr>"

text \<open>
  An extension of the events that sends nothing to the pane.
\<close>

definition quietExtension :: "event list \<Rightarrow> event list \<Rightarrow> bool" where
  "quietExtension tr0 tr \<longleftrightarrow> (\<exists>added. tr = tr0 @ added \<and> list_all (\<lambda>ev. \<not> isPaneSend ev) added)"

section \<open>Guardrail check: results\<close>

lemma boolCount_spec: "boolCount r = int (spec_flagCount r)"
  by (simp add: boolCount_def spec_flagCount_def)

lemma countPositive_tags_spec: "countPositive (tags r) 0 = int (spec_categoryCount r)"
  by (simp add: tags_def spec_categoryCount_def)

text \<open>
  C1. For every response and every watch-mode setting, \<open>aiFollowedGuidelines\<close>
  reports the response invalid exactly when more than one boolean flag is true, or more
  than one action category is non-empty, or watch mode is off and no flag and no category
  is set; a valid response comes with the empty violation message.
\<close>

theorem aiFollowedGuidelines_invalid_iff:
  "(\<not> snd (aiFollowedGuidelines m r)) =
     (spec_flagCount r > 1 \<or> spec_categoryCount r > 1 \<or>
      (\<not> WatchMode m \<and> spec_flagCount r + spec_categoryCount r = 0))
   \<and> (snd (aiFollowedGuidelines m r) \<longrightarrow> fst (aiFollowedGuidelines m r) = '''')"
proof -
  have b: "boolCount r = int (spec_flagCount r)" by (rule boolCount_spec)
  have c: "countPositive (tags r) 0 = int (spec_categoryCount r)"
    by (rule countPositive_tags_spec)
  have z: "(int (spec_categoryCount r) + int (spec_flagCount r) = 0) =
           (spec_flagCount r + spec_categoryCount r = 0)"
    by auto
  show ?thesis
    unfolding aiFollowedGuidelines_def b c Let_def
    by (simp add: z del: add_is_0)
qed

theorem aiFollowedGuidelines_invalid_iff_witness:
  "snd (aiFollowedGuidelines exampleManager (emptyResponse\<lparr>RequestAccomplished := True\<rparr>))
   \<and> fst (aiFollowedGuidelines exampleManager (emptyResponse\<lparr>RequestAccomplished := True\<rparr>)) = ''''
   \<and> \<not> snd (aiFollowedGuidelines exampleManager emptyResponse)
   \<and> spec_flagCount emptyResponse + spec_categoryCount emptyResponse = 0"
  using aiFollowedGuidelines_invalid_iff
          [of exampleManager "emptyResponse\<lparr>RequestAccomplished := True\<rparr>"]
        aiFollowedGuidelines_invalid_iff [of exampleManager emptyResponse]
  by (simp add: exampleManager_def emptyResponse_def spec_flagCount_def
        spec_categoryCount_def)

section \<open>Reflection log: results\<close>

lemma spec_mostRecent_drop:
  "spec_mostRecent n xs = drop (length xs - n) xs"
  by (simp add: spec_mostRecent_def take_rev)

lemma pruneReflectionLog_eq:
  "pruneReflectionLog (m, tr) =
     (m\<lparr>ReflectionLog := drop (length (ReflectionLog m) - 500) (ReflectionLog m)\<rparr>,
      if length (ReflectionLog m) \<le> 500 then tr
      else tr @ [ReflectionLogTrimmed (int (length (ReflectionLog m)) - 500)])"
  by (simp add: pruneReflectionLog_def reflectionLogLimit_def Let_def nat_diff_distrib')

lemma appendReflection_eq:
  "appendReflection r (m, tr) =
     (m\<lparr>ReflectionLog := drop (Suc (length (ReflectionLog m)) - 500) (ReflectionLog m @ [r])\<rparr>,
      if length (ReflectionLog m) < 500 then tr
      else tr @ [ReflectionLogTrimmed (int (length (ReflectionLog m)) - 499)])"
  by (simp add: appendReflection_def pruneReflectionLog_eq)

lemma appendReflection_small:
  "length (ReflectionLog m) < 500 \<Longrightarrow>
   appendReflection r (m, tr) = (m\<lparr>ReflectionLog := ReflectionLog m @ [r]\<rparr>, tr)"
  by (simp add: appendReflection_eq)

lemma appendReflection_full:
  "length (ReflectionLog m) = 500 \<Longrightarrow>
   appendReflection r (m, tr) =
     (m\<lparr>ReflectionLog := drop 1 (ReflectionLog m @ [r])\<rparr>, tr @ [ReflectionLogTrimmed 1])"
  by (simp add: appendReflection_eq)

lemma drop_snoc_step:
  "drop (Suc (length (drop (length ys - 500) ys)) - 500) (drop (length ys - 500) ys @ [x]) =
   drop (Suc (length ys) - 500) (ys @ [x])"
proof (cases "length ys \<le> 500")
  case True
  then show ?thesis by simp
next
  case False
  then have big: "500 < length ys" by simp
  define a where "a = length ys - 500"
  have a: "a < length ys" "length ys - a = 500" "Suc (length ys) - 500 = Suc a"
    using big by (simp_all add: a_def)
  have e1: "Suc (length (drop a ys)) - 500 = 1" using a by simp
  have e2: "drop a ys @ [x] = drop a (ys @ [x])" using a by simp
  have e3: "drop 1 (drop a (ys @ [x])) = drop (Suc a) (ys @ [x])"
    by (simp del: drop_append)
  show ?thesis unfolding a_def [symmetric] e1 e2 e3 a(3) by (rule refl)
qed

lemma fold_appendReflection_fst:
  "rs \<noteq> [] \<Longrightarrow>
   fst (fold appendReflection rs (m, tr)) =
     m\<lparr>ReflectionLog :=
         drop (length (ReflectionLog m @ rs) - 500) (ReflectionLog m @ rs)\<rparr>"
proof (induction rs rule: rev_induct)
  case Nil
  then show ?case by simp
next
  case (snoc x xs)
  obtain m' tr' where step: "fold appendReflection xs (m, tr) = (m', tr')"
    by (cases "fold appendReflection xs (m, tr)")
  show ?case
  proof (cases "xs = []")
    case True
    then show ?thesis by (simp add: appendReflection_eq)
  next
    case False
    then have m': "m' = m\<lparr>ReflectionLog :=
        drop (length (ReflectionLog m @ xs) - 500) (ReflectionLog m @ xs)\<rparr>"
      using snoc.IH step by simp
    have "fst (fold appendReflection (xs @ [x]) (m, tr)) = fst (appendReflection x (m', tr'))"
      by (simp add: step)
    also have "\<dots> = m\<lparr>ReflectionLog :=
        drop (Suc (length (ReflectionLog m @ xs)) - 500) ((ReflectionLog m @ xs) @ [x])\<rparr>"
      unfolding appendReflection_eq m'
      using drop_snoc_step [of "ReflectionLog m @ xs" x] by simp
    finally show ?thesis by simp
  qed
qed

lemma fold_appendReflection_snd:
  "length (ReflectionLog m) \<le> 500 \<Longrightarrow>
   snd (fold appendReflection rs (m, tr)) =
     tr @ replicate (length (ReflectionLog m) + length rs - 500) (ReflectionLogTrimmed 1)"
proof (induction rs arbitrary: m tr)
  case Nil
  then show ?case by simp
next
  case (Cons r rs)
  show ?case
  proof (cases "length (ReflectionLog m) < 500")
    case True
    then show ?thesis
      using Cons.IH [of "m\<lparr>ReflectionLog := ReflectionLog m @ [r]\<rparr>" tr]
      by (simp add: appendReflection_small)
  next
    case False
    then have full: "length (ReflectionLog m) = 500" using Cons.prems by simp
    then show ?thesis
      using Cons.IH [of "m\<lparr>ReflectionLog := drop 1 (ReflectionLog m @ [r])\<rparr>"
                        "tr @ [ReflectionLogTrimmed 1]"]
      by (simp add: appendReflection_full replicate_append_same)
  qed
qed

lemma fold_appendReflection_bounded:
  "length (ReflectionLog m) \<le> 500 \<or> rs \<noteq> [] \<Longrightarrow>
   length (ReflectionLog (fst (fold appendReflection rs (m, tr)))) \<le> 500"
  by (cases "rs = []") (simp_all add: fold_appendReflection_fst)

text \<open>
  C4. Whatever the log holds, pruning leaves the most recently appended 500 of its entries
  in their order (all of them if there are at most 500), reports the number of older
  entries removed, and changes nothing else; so the log holds at most 500 entries after
  every append, and after any appends to a log within the cap. For every sequence of 501
  appends, each followed by pruning, and every log they start from: the log then holds
  exactly 500 entries, the 500 most recently appended ones in their original order, and
  the 501st insert reports a dropped count of 1. When the log starts within the cap, the
  reports of the 501 inserts are one report of 1 for each entry evicted; from the empty
  log that is the single report of the 501st insert.
\<close>

theorem reflection_log_cap:
  "fst (pruneReflectionLog (m, tr)) =
     m\<lparr>ReflectionLog := spec_mostRecent 500 (ReflectionLog m)\<rparr>
   \<and> snd (pruneReflectionLog (m, tr)) =
       (if length (ReflectionLog m) \<le> 500 then tr
        else tr @ [ReflectionLogTrimmed (int (length (ReflectionLog m)) - 500)])
   \<and> length (ReflectionLog (fst (pruneReflectionLog (m, tr)))) \<le> 500
   \<and> length (ReflectionLog (fst (appendReflection r (m, tr)))) \<le> 500
   \<and> (length (ReflectionLog m) \<le> 500 \<longrightarrow>
        length (ReflectionLog (fst (fold appendReflection rs (m, tr)))) \<le> 500)
   \<and> (rs \<noteq> [] \<longrightarrow>
        fst (fold appendReflection rs (m, tr)) =
          m\<lparr>ReflectionLog := spec_mostRecent 500 (ReflectionLog m @ rs)\<rparr>)
   \<and> (length rs = 501 \<longrightarrow>
        fst (fold appendReflection rs (m, tr)) = m\<lparr>ReflectionLog := drop 1 rs\<rparr>
        \<and> drop 1 rs = spec_mostRecent 500 rs
        \<and> length (drop 1 rs) = 500
        \<and> fold appendReflection rs (m, tr) =
            appendReflection (last rs) (fold appendReflection (butlast rs) (m, tr))
        \<and> snd (fold appendReflection rs (m, tr)) =
            snd (fold appendReflection (butlast rs) (m, tr)) @ [ReflectionLogTrimmed 1])
   \<and> (length rs = 501 \<and> length (ReflectionLog m) \<le> 500 \<longrightarrow>
        snd (fold appendReflection rs (m, tr)) =
          tr @ replicate (Suc (length (ReflectionLog m))) (ReflectionLogTrimmed 1))"
proof (intro conjI impI)
  show "fst (pruneReflectionLog (m, tr)) =
          m\<lparr>ReflectionLog := spec_mostRecent 500 (ReflectionLog m)\<rparr>"
    by (simp add: pruneReflectionLog_eq spec_mostRecent_drop)
  show "snd (pruneReflectionLog (m, tr)) =
          (if length (ReflectionLog m) \<le> 500 then tr
           else tr @ [ReflectionLogTrimmed (int (length (ReflectionLog m)) - 500)])"
    by (simp add: pruneReflectionLog_eq)
  show "length (ReflectionLog (fst (pruneReflectionLog (m, tr)))) \<le> 500"
    by (simp add: pruneReflectionLog_eq)
  show "length (ReflectionLog (fst (appendReflection r (m, tr)))) \<le> 500"
    by (simp add: appendReflection_eq)
next
  assume "length (ReflectionLog m) \<le> 500"
  then show "length (ReflectionLog (fst (fold appendReflection rs (m, tr)))) \<le> 500"
    by (simp add: fold_appendReflection_bounded)
next
  assume "rs \<noteq> []"
  then show "fst (fold appendReflection rs (m, tr)) =
               m\<lparr>ReflectionLog := spec_mostRecent 500 (ReflectionLog m @ rs)\<rparr>"
    by (simp add: fold_appendReflection_fst spec_mostRecent_drop)
next
  assume n: "length rs = 501"
  define xs where "xs = butlast rs"
  define x where "x = last rs"
  have ne: "rs \<noteq> []" using n by auto
  have rs: "rs = xs @ [x]" unfolding xs_def x_def using ne by simp
  have len: "length xs = 500" unfolding xs_def using n by simp
  have xne: "xs \<noteq> []" using len by auto
  obtain m' tr' where step: "fold appendReflection xs (m, tr) = (m', tr')"
    by (cases "fold appendReflection xs (m, tr)")
  have m': "m' = m\<lparr>ReflectionLog := xs\<rparr>"
    using fold_appendReflection_fst [OF xne, of m tr] step len by simp
  have last_step: "appendReflection x (m', tr') =
      (m\<lparr>ReflectionLog := drop 1 (xs @ [x])\<rparr>, tr' @ [ReflectionLogTrimmed 1])"
    using appendReflection_full [of m' x tr'] len by (simp add: m')
  have whole: "fold appendReflection rs (m, tr) = appendReflection x (m', tr')"
    by (simp add: rs step)
  show "fst (fold appendReflection rs (m, tr)) = m\<lparr>ReflectionLog := drop 1 rs\<rparr>"
    unfolding whole last_step by (simp add: rs)
  show "drop 1 rs = spec_mostRecent 500 rs"
    using n by (simp add: spec_mostRecent_drop)
  show "length (drop 1 rs) = 500" using n by simp
  show "fold appendReflection rs (m, tr) =
          appendReflection (last rs) (fold appendReflection (butlast rs) (m, tr))"
    using whole step by (simp add: xs_def x_def)
  show "snd (fold appendReflection rs (m, tr)) =
          snd (fold appendReflection (butlast rs) (m, tr)) @ [ReflectionLogTrimmed 1]"
    using whole last_step step by (simp add: xs_def)
next
  assume "length rs = 501 \<and> length (ReflectionLog m) \<le> 500"
  then show "snd (fold appendReflection rs (m, tr)) =
               tr @ replicate (Suc (length (ReflectionLog m))) (ReflectionLogTrimmed 1)"
    by (simp add: fold_appendReflection_snd)
qed

theorem reflection_log_cap_witness:
  "fold appendReflection (map exampleReflection [0..<501]) (exampleManager, []) =
     (exampleManager\<lparr>ReflectionLog := map exampleReflection [1..<501]\<rparr>,
      [ReflectionLogTrimmed 1])
   \<and> fold appendReflection (map exampleReflection [2..<503])
        (exampleManager\<lparr>ReflectionLog := map exampleReflection [0..<2]\<rparr>, []) =
       (exampleManager\<lparr>ReflectionLog := map exampleReflection [3..<503]\<rparr>,
        [ReflectionLogTrimmed 1, ReflectionLogTrimmed 1, ReflectionLogTrimmed 1])
   \<and> pruneReflectionLog
        (exampleManager\<lparr>ReflectionLog := map exampleReflection [0..<503]\<rparr>, []) =
       (exampleManager\<lparr>ReflectionLog := map exampleReflection [3..<503]\<rparr>,
        [ReflectionLogTrimmed 3])"
proof (intro conjI)
  define rs where "rs = map exampleReflection [0..<501]"
  have e: "ReflectionLog exampleManager = []" by (simp add: exampleManager_def)
  have l: "length rs = 501" by (simp add: rs_def)
  have d: "drop 1 rs = map exampleReflection [1..<501]"
    by (simp add: rs_def drop_map)
  have f: "fst (fold appendReflection rs (exampleManager, [])) =
             exampleManager\<lparr>ReflectionLog := drop 1 rs\<rparr>"
    using reflection_log_cap [of exampleManager "[]" "exampleReflection 0" rs] l by blast
  have le: "length (ReflectionLog exampleManager) \<le> 500" by (simp add: e)
  have "snd (fold appendReflection rs (exampleManager, [])) =
          [] @ replicate (Suc (length (ReflectionLog exampleManager))) (ReflectionLogTrimmed 1)"
    using reflection_log_cap [of exampleManager "[]" "exampleReflection 0" rs] l le by blast
  then have s: "snd (fold appendReflection rs (exampleManager, [])) = [ReflectionLogTrimmed 1]"
    by (simp add: e)
  show "fold appendReflection (map exampleReflection [0..<501]) (exampleManager, []) =
          (exampleManager\<lparr>ReflectionLog := map exampleReflection [1..<501]\<rparr>,
           [ReflectionLogTrimmed 1])"
    using f s d unfolding rs_def [symmetric] by (simp add: prod_eq_iff)
next
  define rs where "rs = map exampleReflection [2..<503]"
  define m where "m = exampleManager\<lparr>ReflectionLog := map exampleReflection [0..<2]\<rparr>"
  have e: "length (ReflectionLog m) = 2" by (simp add: m_def)
  have l: "length rs = 501" by (simp add: rs_def)
  have d: "drop 1 rs = map exampleReflection [3..<503]"
    by (simp add: rs_def drop_map)
  have f: "fst (fold appendReflection rs (m, [])) = m\<lparr>ReflectionLog := drop 1 rs\<rparr>"
    using reflection_log_cap [of m "[]" "exampleReflection 0" rs] l by blast
  have le: "length (ReflectionLog m) \<le> 500" by (simp add: e)
  have "snd (fold appendReflection rs (m, [])) =
          [] @ replicate (Suc (length (ReflectionLog m))) (ReflectionLogTrimmed 1)"
    using reflection_log_cap [of m "[]" "exampleReflection 0" rs] l le by blast
  then have s: "snd (fold appendReflection rs (m, [])) =
             [ReflectionLogTrimmed 1, ReflectionLogTrimmed 1, ReflectionLogTrimmed 1]"
    by (simp add: e numeral_2_eq_2)
  show "fold appendReflection (map exampleReflection [2..<503])
          (exampleManager\<lparr>ReflectionLog := map exampleReflection [0..<2]\<rparr>, []) =
        (exampleManager\<lparr>ReflectionLog := map exampleReflection [3..<503]\<rparr>,
         [ReflectionLogTrimmed 1, ReflectionLogTrimmed 1, ReflectionLogTrimmed 1])"
    using f s d unfolding rs_def [symmetric] m_def [symmetric]
    by (simp add: prod_eq_iff m_def)
next
  define m where "m = exampleManager\<lparr>ReflectionLog := map exampleReflection [0..<503]\<rparr>"
  have l: "length (ReflectionLog m) = 503" by (simp add: m_def)
  have d: "spec_mostRecent 500 (ReflectionLog m) = map exampleReflection [3..<503]"
    by (simp add: m_def spec_mostRecent_drop drop_map)
  have f: "fst (pruneReflectionLog (m, [])) =
             m\<lparr>ReflectionLog := spec_mostRecent 500 (ReflectionLog m)\<rparr>"
    using reflection_log_cap [of m "[]" "exampleReflection 0" "[]"] by blast
  have "snd (pruneReflectionLog (m, [])) =
          (if length (ReflectionLog m) \<le> 500 then []
           else [] @ [ReflectionLogTrimmed (int (length (ReflectionLog m)) - 500)])"
    using reflection_log_cap [of m "[]" "exampleReflection 0" "[]"] by blast
  then have s: "snd (pruneReflectionLog (m, [])) = [ReflectionLogTrimmed 3]"
    by (simp add: l)
  show "pruneReflectionLog
          (exampleManager\<lparr>ReflectionLog := map exampleReflection [0..<503]\<rparr>, []) =
        (exampleManager\<lparr>ReflectionLog := map exampleReflection [3..<503]\<rparr>,
         [ReflectionLogTrimmed 3])"
    using f s d unfolding m_def [symmetric] by (simp add: prod_eq_iff m_def)
qed

section \<open>Context window manager: results\<close>

lemma scanPinned_two:
  "\<not> FromUser s \<Longrightarrow> \<not> FromUser b \<Longrightarrow>
   scanPinned 0 (s # b # rest) (None, None) = (Some s, Some b)"
  by simp

text \<open>
  C2. On a history \<open>[system, baseline, A, B, C, finalUser]\<close> whose first two
  messages are not from the user, when the summarisation request succeeds, the history
  becomes \<open>[system, baseline, summaryMessage]\<close>; the span that is summarised is
  \<open>A, B, C\<close>, and the one request sent to the model carries the transcript of
  \<open>A, B, C\<close> only: the final message is not part of it.
\<close>

theorem squashHistory_pins:
  assumes msgs: "Messages m = [sys, base, A, B, C, finalUser]"
      and pinned: "\<not> FromUser sys" "\<not> FromUser base"
      and ok: "GetResponseFromChatMessages e tr BackgroundCtx
                 (summarizationMessage e tr [A, B, C]) (GetOpenRouterModel m) = Inr summary"
  shows "Messages (fst (squashHistory e (m, tr))) =
           [sys, base,
            \<lparr> Content = ''CHAT HISTORY SUMMARY:'' @ newline @ summary, FromUser = False,
              Timestamp = timeNow e (snd (squashHistory e (m, tr))) \<rparr>]
         \<and> filter isAiRequest (snd (squashHistory e (m, tr))) =
           filter isAiRequest tr @
           [AiRequest BackgroundCtx
              [\<lparr> Content = summarizationPrompt [A, B, C], FromUser = True,
                 Timestamp = timeNow e tr \<rparr>]
              (GetOpenRouterModel m)]
         \<and> messagesToSummarize m = [A, B, C]"
proof -
  have scan: "scanPinned 0 (Messages m) (None, None) = (Some sys, Some base)"
    using pinned by (simp add: msgs)
  have idx: "startIdx m = 2" by (simp add: startIdx_def scan)
  have span: "messagesToSummarize m = [A, B, C]"
    by (simp add: messagesToSummarize_def idx msgs)
  define tr1 where
    "tr1 = tr @ [AiRequest BackgroundCtx (summarizationMessage e tr [A, B, C]) (GetOpenRouterModel m)]
             @ (if Debug (Config m)
                then [DebugDump (summarizationMessage e tr [A, B, C]) summary] else [])"
  have summ: "summarizeChatHistory e m tr [A, B, C] =
                (Inr (''CHAT HISTORY SUMMARY:'' @ newline @ summary), tr1)"
    by (simp add: summarizeChatHistory_def Let_def ok tr1_def)
  have res: "squashHistory e (m, tr) =
               (m\<lparr>Messages := [sys, base,
                   \<lparr> Content = ''CHAT HISTORY SUMMARY:'' @ newline @ summary, FromUser = False,
                     Timestamp = timeNow e tr1 \<rparr>]\<rparr>, tr1)"
    using pinned by (simp add: squashHistory_def idx span summ msgs)
  show ?thesis
    unfolding res using span by (simp add: tr1_def summarizationMessage_def)
qed

text \<open>
  C8. When the summarisation request that \<open>squashHistory\<close> sends returns an error,
  the session, and so its message history, is left exactly as it was.
\<close>

theorem squashHistory_failure_unchanged:
  assumes "GetResponseFromChatMessages e tr BackgroundCtx
             (summarizationMessage e tr (messagesToSummarize m)) (GetOpenRouterModel m) = Inl err"
  shows "fst (squashHistory e (m, tr)) = m
         \<and> Messages (fst (squashHistory e (m, tr))) = Messages m"
  using assms
  by (simp add: squashHistory_def summarizeChatHistory_def Let_def split: prod.splits)

theorem squashHistory_pins_witness:
  "Messages (fst (squashHistory exampleEnv (exampleManager\<lparr>Messages := exampleHistory\<rparr>, []))) =
     [exampleMsg ''system'' False, exampleMsg ''baseline'' False,
      \<lparr> Content = ''CHAT HISTORY SUMMARY:'' @ newline @ ''mock response'', FromUser = False,
        Timestamp = 1 \<rparr>]"
proof -
  let ?m = "exampleManager\<lparr>Messages := exampleHistory\<rparr>"
  have msgs: "Messages ?m =
      [exampleMsg ''system'' False, exampleMsg ''baseline'' False, exampleMsg ''A'' True,
       exampleMsg ''B'' False, exampleMsg ''C'' True, exampleMsg ''final'' True]"
    by (simp add: exampleHistory_def)
  have p1: "\<not> FromUser (exampleMsg ''system'' False)" by (simp add: exampleMsg_def)
  have p2: "\<not> FromUser (exampleMsg ''baseline'' False)" by (simp add: exampleMsg_def)
  have ok: "GetResponseFromChatMessages exampleEnv [] BackgroundCtx
              (summarizationMessage exampleEnv []
                 [exampleMsg ''A'' True, exampleMsg ''B'' False, exampleMsg ''C'' True])
              (GetOpenRouterModel ?m) = Inr ''mock response''"
    by (simp add: exampleEnv_def)
  have tm: "timeNow exampleEnv (snd (squashHistory exampleEnv (?m, []))) = 1"
    using squashHistory_pins [OF msgs p1 p2 ok]
    by (simp add: squashHistory_def summarizeChatHistory_def Let_def exampleEnv_def
          exampleManager_def exampleHistory_def exampleMsg_def startIdx_def
          messagesToSummarize_def)
  show ?thesis
    using squashHistory_pins [OF msgs p1 p2 ok] by (simp add: tm)
qed

theorem squashHistory_failure_unchanged_witness:
  "fst (squashHistory failingEnv (exampleManager\<lparr>Messages := exampleHistory\<rparr>, [])) =
     exampleManager\<lparr>Messages := exampleHistory\<rparr>
   \<and> snd (squashHistory failingEnv (exampleManager\<lparr>Messages := exampleHistory\<rparr>, [])) \<noteq> []"
proof -
  let ?m = "exampleManager\<lparr>Messages := exampleHistory\<rparr>"
  have err: "GetResponseFromChatMessages failingEnv [] BackgroundCtx
               (summarizationMessage failingEnv [] (messagesToSummarize ?m))
               (GetOpenRouterModel ?m) = Inl ''timeout''"
    by (simp add: failingEnv_def)
  have tr: "snd (squashHistory failingEnv (?m, [])) \<noteq> []"
    by (simp add: squashHistory_def summarizeChatHistory_def Let_def failingEnv_def
          exampleManager_def exampleHistory_def exampleMsg_def startIdx_def)
  show ?thesis
    using squashHistory_failure_unchanged [OF err] tr by simp
qed

section \<open>Line editor: results\<close>

lemma deleteAt_Some:
  "0 \<le> i \<Longrightarrow> i < int (length b) \<Longrightarrow>
   deleteAt i b = Some (take (nat i) b @ drop (nat i + 1) b)"
  by (simp add: deleteAt_def)

lemma length_deleted:
  "0 \<le> i \<Longrightarrow> i < int (length b) \<Longrightarrow>
   int (length (take (nat i) b @ drop (nat i + 1) b)) = int (length b) - 1"
  by (simp add: min_def)

text \<open>
  C10 (amended). For every byte sequence, buffer and cursor with
  \<open>0 \<le> cursor \<le> len(buffer)\<close>, \<open>handleEscapeSequence\<close> returns without a
  panic and the cursor is again within \<open>0..len(buffer)\<close>. The buffer changes only
  when the sequence has at least four bytes with \<open>[\<close>, \<open>3\<close>, \<open>~\<close> at
  positions 1 to 3 (the first byte is not inspected, later bytes are ignored) and the
  cursor is before the end of the buffer: then exactly the rune at the cursor is removed
  and the cursor stays. In every other case the buffer is unchanged.
\<close>

theorem handleEscapeSequence_invariant:
  assumes lo: "0 \<le> cursor" and hi: "cursor \<le> int (length buffer)"
  shows "\<exists>buffer' cursor' calls.
           handleEscapeSequence seq (buffer, cursor) = Some ((buffer', cursor'), calls)
           \<and> 0 \<le> cursor' \<and> cursor' \<le> int (length buffer')
           \<and> (if length seq \<ge> 4 \<and> seq ! 1 = CHR ''['' \<and> seq ! 2 = CHR ''3''
                   \<and> seq ! 3 = CHR ''~'' \<and> cursor < int (length buffer)
                then buffer' = take (nat cursor) buffer @ drop (nat cursor + 1) buffer
                     \<and> cursor' = cursor \<and> length buffer' + 1 = length buffer
                else buffer' = buffer)"
proof (cases "length seq \<ge> 4 \<and> seq ! 1 = CHR ''['' \<and> seq ! 2 = CHR ''3''
                \<and> seq ! 3 = CHR ''~'' \<and> cursor < int (length buffer)")
  case True
  have d: "deleteAt cursor buffer = Some (take (nat cursor) buffer @ drop (nat cursor + 1) buffer)"
    using True lo by (simp add: deleteAt_Some)
  have l: "int (length (take (nat cursor) buffer @ drop (nat cursor + 1) buffer)) =
           int (length buffer) - 1"
    using True lo by (intro length_deleted) auto
  have h: "handleEscapeSequence seq (buffer, cursor) =
           Some ((take (nat cursor) buffer @ drop (nat cursor + 1) buffer, cursor), [RedrawCb])"
    using True by (simp add: handleEscapeSequence_def d)
  show ?thesis
    unfolding h using True lo l by auto
next
  case False
  then show ?thesis
    using lo hi by (auto simp: handleEscapeSequence_def Suc_le_eq)
qed

text \<open>
  The claim as stated fails: a sequence other than \<open>ESC [ 3 ~\<close> changes the buffer.
\<close>

theorem handleEscapeSequence_other_sequence_counterexample:
  "handleEscapeSequence ''x[3~'' ([97, 98], 0) = Some (([98], 0), [RedrawCb])
   \<and> ''x[3~'' \<noteq> [CHR 0x1B, CHR ''['', CHR ''3'', CHR ''~'']
   \<and> handleEscapeSequence [CHR 0x1B, CHR ''['', CHR ''3'', CHR ''~'', CHR ''~''] ([97, 98], 0)
       = Some (([98], 0), [RedrawCb])"
  by (simp add: handleEscapeSequence_def deleteAt_def)

theorem handleEscapeSequence_invariant_witness:
  "handleEscapeSequence [CHR 0x1B, CHR ''['', CHR ''3'', CHR ''~''] ([97, 98, 99], 1)
     = Some (([97, 99], 1), [RedrawCb])
   \<and> handleEscapeSequence [CHR 0x1B, CHR ''['', CHR ''D''] ([97, 98, 99], 1)
     = Some (([97, 98, 99], 0), [RedrawCb])"
proof -
  have a: "(0::int) \<le> 1" by simp
  have b: "(1::int) \<le> int (length [97::rune, 98, 99])" by simp
  show ?thesis
    using handleEscapeSequence_invariant [OF a b, of "[CHR 0x1B, CHR ''['', CHR ''3'', CHR ''~'']"]
          handleEscapeSequence_invariant [OF a b, of "[CHR 0x1B, CHR ''['', CHR ''D'']"]
    by (simp add: handleEscapeSequence_def deleteAt_def)
qed


section \<open>Escape sequences: results\<close>

lemma readNext_quiet:
  "buffered rd = [] \<Longrightarrow> stdin rd = Quiet # ts \<Longrightarrow>
   readNext rd seq = (Inr False, rd\<lparr>stdin := ts\<rparr>, seq)"
  by (simp add: readNext_def)

lemma readNext_available:
  assumes "available rd = b # rest"
  shows "\<exists>rd'. readNext rd seq = (Inr True, rd', seq @ [b]) \<and> available rd' = rest"
proof (cases "buffered rd")
  case Nil
  then obtain c cs ts where st: "stdin rd = Arrive c cs # ts"
    using assms by (cases "stdin rd" rule: arrivals.cases) (auto simp: available_def)
  show ?thesis
    using assms Nil st by (simp add: readNext_def ReadByte_def available_def)
next
  case (Cons c cs)
  then show ?thesis
    using assms by (simp add: readNext_def ReadByte_def available_def)
qed

lemma readEscapeSequence_standalone:
  "buffered rd = [] \<Longrightarrow> stdin rd = Quiet # ts \<Longrightarrow>
   readEscapeSequence rd = (None, rd\<lparr>stdin := ts\<rparr>, [CHR 0x1B])"
  by (simp add: readEscapeSequence_def readNext_quiet)

lemma readEscapeSequence_left:
  assumes "available rd = CHR ''['' # CHR ''D'' # rest"
  shows "\<exists>rd'. readEscapeSequence rd = (None, rd', [CHR 0x1B, CHR ''['', CHR ''D''])
               \<and> available rd' = rest"
proof -
  obtain rd1 where r1: "readNext rd [CHR 0x1B] = (Inr True, rd1, [CHR 0x1B, CHR ''[''])"
    and a1: "available rd1 = CHR ''D'' # rest"
    using readNext_available [OF assms, of "[CHR 0x1B]"] by auto
  obtain rd2 where r2: "readNext rd1 [CHR 0x1B, CHR ''['']
                          = (Inr True, rd2, [CHR 0x1B, CHR ''['', CHR ''D''])"
    and a2: "available rd2 = rest"
    using readNext_available [OF a1, of "[CHR 0x1B, CHR ''['']"] by auto
  have l2: "escLoop rd2 [CHR 0x1B, CHR ''['', CHR ''D'']
              = (None, rd2, [CHR 0x1B, CHR ''['', CHR ''D''])"
    by (subst escLoop.simps) simp
  have l1: "escLoop rd1 [CHR 0x1B, CHR ''['']
              = (None, rd2, [CHR 0x1B, CHR ''['', CHR ''D''])"
    by (subst escLoop.simps) (simp add: r2 l2)
  have "readEscapeSequence rd = (None, rd2, [CHR 0x1B, CHR ''['', CHR ''D''])"
    by (simp add: readEscapeSequence_def r1 l1)
  then show ?thesis using a2 by blast
qed

text \<open>
  C6. After the byte 27 has been read: when nothing is buffered and nothing arrives
  within the poll timeout, \<open>readEscapeSequence\<close> returns the one-byte sequence
  \<open>[27]\<close> and the confirmation loop returns cancelled; when the bytes \<open>[\<close> and
  \<open>D\<close> are available, the sequence read is \<open>[27, '[', 'D']\<close>, its last byte lies
  in \<open>0x40..0x7E\<close>, \<open>handleEscapeSequence\<close> moves the cursor one place left (or
  beeps at the start of the line) and the loop goes on without returning.
\<close>

theorem escape_disambiguation:
  assumes esc: "ReadRune lib rd = (Inr 27, rd1)"
  shows "(buffered rd1 = [] \<and> stdin rd1 = Quiet # ts \<longrightarrow>
            readEscapeSequence rd1 = (None, rd1\<lparr>stdin := ts\<rparr>, [CHR 0x1B])
            \<and> length [CHR 0x1B] = 1
            \<and> readLoop (Suc n) lib (buffer, cursor) rd tr =
                Some (Return (Inr ([], True)), rd1\<lparr>stdin := ts\<rparr>, tr @ [TermOut crlf]))
         \<and> (available rd1 = CHR ''['' # CHR ''D'' # rest \<longrightarrow>
             (\<exists>rd2. readEscapeSequence rd1 = (None, rd2, [CHR 0x1B, CHR ''['', CHR ''D''])
                \<and> available rd2 = rest
                \<and> (0x40::nat) \<le> of_char (CHR ''D'') \<and> (of_char (CHR ''D'') :: nat) \<le> 0x7E
                \<and> handleEscapeSequence [CHR 0x1B, CHR ''['', CHR ''D''] (buffer, cursor) =
                    (if cursor > 0 then Some ((buffer, cursor - 1), [RedrawCb])
                     else Some ((buffer, cursor), [BeepCb]))
                \<and> readLoop (Suc n) lib (buffer, cursor) rd tr =
                    (if cursor > 0 then
                       readLoop n lib (buffer, cursor - 1) rd2 (tr @ [Redraw buffer (cursor - 1)])
                     else readLoop n lib (buffer, cursor) rd2 (tr @ [Beep]))))"
proof (intro conjI impI)
  assume q: "buffered rd1 = [] \<and> stdin rd1 = Quiet # ts"
  then have s: "readEscapeSequence rd1 = (None, rd1\<lparr>stdin := ts\<rparr>, [CHR 0x1B])"
    by (simp add: readEscapeSequence_standalone)
  show "readEscapeSequence rd1 = (None, rd1\<lparr>stdin := ts\<rparr>, [CHR 0x1B])" by (rule s)
  show "length [CHR 0x1B] = 1" by simp
  show "readLoop (Suc n) lib (buffer, cursor) rd tr =
          Some (Return (Inr ([], True)), rd1\<lparr>stdin := ts\<rparr>, tr @ [TermOut crlf])"
    by (simp add: esc s)
next
  assume a: "available rd1 = CHR ''['' # CHR ''D'' # rest"
  obtain rd2 where s: "readEscapeSequence rd1 = (None, rd2, [CHR 0x1B, CHR ''['', CHR ''D''])"
    and a2: "available rd2 = rest"
    using readEscapeSequence_left [OF a] by auto
  have h: "handleEscapeSequence [CHR 0x1B, CHR ''['', CHR ''D''] (buffer, cursor) =
             (if cursor > 0 then Some ((buffer, cursor - 1), [RedrawCb])
              else Some ((buffer, cursor), [BeepCb]))"
    by (simp add: handleEscapeSequence_def)
  have l: "readLoop (Suc n) lib (buffer, cursor) rd tr =
             (if cursor > 0 then
                readLoop n lib (buffer, cursor - 1) rd2 (tr @ [Redraw buffer (cursor - 1)])
              else readLoop n lib (buffer, cursor) rd2 (tr @ [Beep]))"
    by (simp add: esc s h)
  show "\<exists>rd2. readEscapeSequence rd1 = (None, rd2, [CHR 0x1B, CHR ''['', CHR ''D''])
          \<and> available rd2 = rest
          \<and> (0x40::nat) \<le> of_char (CHR ''D'') \<and> (of_char (CHR ''D'') :: nat) \<le> 0x7E
          \<and> handleEscapeSequence [CHR 0x1B, CHR ''['', CHR ''D''] (buffer, cursor) =
              (if cursor > 0 then Some ((buffer, cursor - 1), [RedrawCb])
               else Some ((buffer, cursor), [BeepCb]))
          \<and> readLoop (Suc n) lib (buffer, cursor) rd tr =
              (if cursor > 0 then
                 readLoop n lib (buffer, cursor - 1) rd2 (tr @ [Redraw buffer (cursor - 1)])
               else readLoop n lib (buffer, cursor) rd2 (tr @ [Beep]))"
    using s a2 h l by (intro exI [of _ rd2]) simp
qed


theorem escape_disambiguation_witness:
  "readLoop (Suc 0) exampleLib ([], 0)
       \<lparr> buffered = [], stdin = [Arrive (CHR 0x1B) [], Quiet] \<rparr> []
     = Some (Return (Inr ([], True)), \<lparr> buffered = [], stdin = [] \<rparr>, [TermOut crlf])
   \<and> readLoop (Suc (Suc 0)) exampleLib ([97], 1)
         \<lparr> buffered = [], stdin = [Arrive (CHR 0x1B) ''[D'', Arrive (CHR 0x0D) []] \<rparr> []
     = Some (Return (Inr (''a'', False)), \<lparr> buffered = [], stdin = [] \<rparr>,
             [Redraw [97] 0, TermOut crlf])"
proof -
  have c: "char_of (97::nat) = CHR ''a''" by code_simp
  have e1: "ReadRune exampleLib \<lparr> buffered = [], stdin = [Arrive (CHR 0x1B) [], Quiet] \<rparr>
              = (Inr 27, \<lparr> buffered = [], stdin = [Quiet] \<rparr>)"
    by (simp add: ReadRune_def decodeBuffered_def)
  have e2: "ReadRune exampleLib
              \<lparr> buffered = [], stdin = [Arrive (CHR 0x1B) ''[D'', Arrive (CHR 0x0D) []] \<rparr>
              = (Inr 27, \<lparr> buffered = ''[D'', stdin = [Arrive (CHR 0x0D) []] \<rparr>)"
    by (simp add: ReadRune_def decodeBuffered_def)
  have a2: "available \<lparr> buffered = ''[D'', stdin = [Arrive (CHR 0x0D) []] \<rparr>
              = CHR ''['' # CHR ''D'' # [CHR 0x0D]"
    by (simp add: available_def)
  have r2: "readEscapeSequence \<lparr> buffered = ''[D'', stdin = [Arrive (CHR 0x0D) []] \<rparr>
              = (None, \<lparr> buffered = [], stdin = [Arrive (CHR 0x0D) []] \<rparr>,
                 [CHR 0x1B, CHR ''['', CHR ''D''])"
    by (simp add: readEscapeSequence_def readNext_def ReadByte_def escLoop.simps)
  have l1: "readLoop (Suc 0) exampleLib ([97], 0)
              \<lparr> buffered = [], stdin = [Arrive (CHR 0x0D) []] \<rparr> [Redraw [97] 0]
            = Some (Return (Inr (''a'', False)), \<lparr> buffered = [], stdin = [] \<rparr>,
                    [Redraw [97] 0, TermOut crlf])"
    by (simp add: ReadRune_def decodeBuffered_def exampleLib_def c)
  have f1: "readLoop (Suc 0) exampleLib ([], 0)
              \<lparr> buffered = [], stdin = [Arrive (CHR 0x1B) [], Quiet] \<rparr> []
            = Some (Return (Inr ([], True)), \<lparr> buffered = [], stdin = [] \<rparr>, [TermOut crlf])"
    using escape_disambiguation [OF e1, where ts = "[]" and n = 0 and buffer = "[]"
            and cursor = 0 and tr = "[]" and rest = "[]"]
    by (simp del: readLoop.simps)
  have f2: "readLoop (Suc (Suc 0)) exampleLib ([97], 1)
              \<lparr> buffered = [], stdin = [Arrive (CHR 0x1B) ''[D'', Arrive (CHR 0x0D) []] \<rparr> []
            = readLoop (Suc 0) exampleLib ([97], 0)
                \<lparr> buffered = [], stdin = [Arrive (CHR 0x0D) []] \<rparr> [Redraw [97] 0]"
    using escape_disambiguation [OF e2, where ts = "[]" and n = "Suc 0" and buffer = "[97]"
            and cursor = 1 and tr = "[]" and rest = "[CHR 0x0D]"]
    by (simp add: a2 r2 del: readLoop.simps)
  show ?thesis
    unfolding f2 l1 using f1 by simp
qed

section \<open>Whitelist and confirmation: results\<close>

lemma whitelistLoop_True_iff:
  "whitelistLoop lib command ps = Inr True \<longleftrightarrow>
     (\<exists>pre p post. ps = pre @ p # post \<and> p \<noteq> [] \<and> MatchString lib p command = Inr True
        \<and> (\<forall>q \<in> set pre. q = [] \<or> MatchString lib q command = Inr False))"
proof (induction ps)
  case Nil
  then show ?case by simp
next
  case (Cons a ps)
  show ?case
  proof (cases "a = []")
    case True
    show ?thesis
    proof
      assume "whitelistLoop lib command (a # ps) = Inr True"
      then obtain pre p post where "ps = pre @ p # post" "p \<noteq> []"
          "MatchString lib p command = Inr True"
          "\<forall>q \<in> set pre. q = [] \<or> MatchString lib q command = Inr False"
        using Cons.IH True by auto
      then show "\<exists>pre p post. a # ps = pre @ p # post \<and> p \<noteq> []
          \<and> MatchString lib p command = Inr True
          \<and> (\<forall>q \<in> set pre. q = [] \<or> MatchString lib q command = Inr False)"
        using True by (intro exI [of _ "a # pre"] exI [of _ p] exI [of _ post]) simp
    next
      assume "\<exists>pre p post. a # ps = pre @ p # post \<and> p \<noteq> []
          \<and> MatchString lib p command = Inr True
          \<and> (\<forall>q \<in> set pre. q = [] \<or> MatchString lib q command = Inr False)"
      then obtain pre p post where d: "a # ps = pre @ p # post" "p \<noteq> []"
          "MatchString lib p command = Inr True"
          "\<forall>q \<in> set pre. q = [] \<or> MatchString lib q command = Inr False"
        by blast
      then obtain pre' where "pre = a # pre'" using True by (cases pre) auto
      then show "whitelistLoop lib command (a # ps) = Inr True"
        using d True Cons.IH by auto
    qed
  next
    case False
    show ?thesis
    proof (cases "MatchString lib a command")
      case (Inl err)
      have "\<not> (\<exists>pre p post. a # ps = pre @ p # post \<and> p \<noteq> []
          \<and> MatchString lib p command = Inr True
          \<and> (\<forall>q \<in> set pre. q = [] \<or> MatchString lib q command = Inr False))"
      proof
        assume "\<exists>pre p post. a # ps = pre @ p # post \<and> p \<noteq> []
          \<and> MatchString lib p command = Inr True
          \<and> (\<forall>q \<in> set pre. q = [] \<or> MatchString lib q command = Inr False)"
        then obtain pre p post where d: "a # ps = pre @ p # post"
            "MatchString lib p command = Inr True"
            "\<forall>q \<in> set pre. q = [] \<or> MatchString lib q command = Inr False"
          by blast
        then show False using Inl False by (cases pre) auto
      qed
      then show ?thesis using Inl False by simp
    next
      case (Inr match)
      show ?thesis
      proof (cases match)
        case True
        have "a # ps = [] @ a # ps \<and> a \<noteq> [] \<and> MatchString lib a command = Inr True
               \<and> (\<forall>q \<in> set []. q = [] \<or> MatchString lib q command = Inr False)"
          using Inr True False by simp
        then have "\<exists>pre p post. a # ps = pre @ p # post \<and> p \<noteq> []
          \<and> MatchString lib p command = Inr True
          \<and> (\<forall>q \<in> set pre. q = [] \<or> MatchString lib q command = Inr False)"
          by blast
        then show ?thesis using Inr True False by simp
      next
        case nomatch: False
        show ?thesis
        proof
          assume "whitelistLoop lib command (a # ps) = Inr True"
          then obtain pre p post where "ps = pre @ p # post" "p \<noteq> []"
              "MatchString lib p command = Inr True"
              "\<forall>q \<in> set pre. q = [] \<or> MatchString lib q command = Inr False"
            using Cons.IH Inr nomatch False by auto
          then show "\<exists>pre p post. a # ps = pre @ p # post \<and> p \<noteq> []
              \<and> MatchString lib p command = Inr True
              \<and> (\<forall>q \<in> set pre. q = [] \<or> MatchString lib q command = Inr False)"
            using Inr nomatch by (intro exI [of _ "a # pre"] exI [of _ p] exI [of _ post]) simp
        next
          assume "\<exists>pre p post. a # ps = pre @ p # post \<and> p \<noteq> []
              \<and> MatchString lib p command = Inr True
              \<and> (\<forall>q \<in> set pre. q = [] \<or> MatchString lib q command = Inr False)"
          then obtain pre p post where d: "a # ps = pre @ p # post" "p \<noteq> []"
              "MatchString lib p command = Inr True"
              "\<forall>q \<in> set pre. q = [] \<or> MatchString lib q command = Inr False"
            by blast
          then obtain pre' where "pre = a # pre'" using Inr nomatch by (cases pre) auto
          then show "whitelistLoop lib command (a # ps) = Inr True"
            using d Inr nomatch False Cons.IH by auto
        qed
      qed
    qed
  qed
qed

lemma blacklistLoop_False_iff:
  "blacklistLoop lib command ps = Inr False \<longleftrightarrow>
     (\<forall>p \<in> set ps. p = [] \<or> MatchString lib p command = Inr False)"
  by (induction ps) (auto split: sum.splits)

lemma blacklistLoop_Inl:
  "p \<noteq> [] \<Longrightarrow> MatchString lib p command = Inl err \<Longrightarrow>
   \<forall>q \<in> set pre. q = [] \<or> MatchString lib q command = Inr False \<Longrightarrow>
   blacklistLoop lib command (pre @ p # post) =
     Inl (''invalid blacklist regex pattern '' @ [CHR 0x27] @ p @ [CHR 0x27] @ '': '' @ err)"
  by (induction pre) auto

lemma whitelistLoop_Inl:
  "p \<noteq> [] \<Longrightarrow> MatchString lib p command = Inl err \<Longrightarrow>
   \<forall>q \<in> set pre. q = [] \<or> MatchString lib q command = Inr False \<Longrightarrow>
   whitelistLoop lib command (pre @ p # post) =
     Inl (''invalid whitelist regex pattern '' @ [CHR 0x27] @ p @ [CHR 0x27] @ '': '' @ err)"
  by (induction pre) auto

lemma whitelistLoop_valid_match:
  assumes "\<forall>p \<in> set ps. p \<noteq> [] \<longrightarrow> (\<exists>b. MatchString lib p command = Inr b)"
      and "\<exists>p \<in> set ps. p \<noteq> [] \<and> MatchString lib p command = Inr True"
  shows "whitelistLoop lib command ps = Inr True"
  using assms
proof (induction ps)
  case Nil
  then show ?case by simp
next
  case (Cons a ps)
  show ?case
  proof (cases "a \<noteq> [] \<and> MatchString lib a command = Inr True")
    case True
    then show ?thesis by simp
  next
    case False
    then have ex: "\<exists>p \<in> set ps. p \<noteq> [] \<and> MatchString lib p command = Inr True"
      using Cons.prems(2) by auto
    have val: "\<forall>p \<in> set ps. p \<noteq> [] \<longrightarrow> (\<exists>b. MatchString lib p command = Inr b)"
      using Cons.prems(1) by simp
    have rest: "whitelistLoop lib command ps = Inr True"
      using Cons.IH [OF val ex] .
    have "a \<noteq> [] \<longrightarrow> (\<exists>b. MatchString lib a command = Inr b)"
      using Cons.prems(1) by simp
    then show ?thesis using False rest by auto
  qed
qed

lemma whitelistCheck_True_iff:
  "fst (whitelistCheck lib m command) \<longleftrightarrow>
     whitelistLoop lib command (WhitelistPatterns (Config m)) = Inr True
     \<and> blacklistLoop lib command (BlacklistPatterns (Config m)) = Inr False"
  by (auto simp: whitelistCheck_def split: sum.splits)

text \<open>
  C5 (amended). For every command that matches at least one non-empty whitelist pattern
  and no non-empty blacklist pattern, all non-empty patterns being valid regular
  expressions, \<open>confirmedToExecFn\<close> returns \<open>(true, command)\<close> and leaves the session,
  standard input and the terminal untouched: the prompt is never invoked. Empty patterns
  are skipped by \<open>whitelistCheck\<close> and so cannot approve a command.
\<close>

theorem confirmedToExecFn_whitelist_bypass:
  assumes valid: "\<forall>p \<in> set (WhitelistPatterns (Config m) @ BlacklistPatterns (Config m)).
                    p \<noteq> [] \<longrightarrow> (\<exists>b. MatchString lib p command = Inr b)"
      and wl: "\<exists>p \<in> set (WhitelistPatterns (Config m)).
                 p \<noteq> [] \<and> MatchString lib p command = Inr True"
      and bl: "\<forall>p \<in> set (BlacklistPatterns (Config m)).
                 p \<noteq> [] \<longrightarrow> MatchString lib p command \<noteq> Inr True"
  shows "confirmedToExecFn (Suc n) lib os command prompt edit (m, inp, tr) =
           Some (Return (True, command), m, inp, tr)"
proof -
  have v: "\<forall>p \<in> set (WhitelistPatterns (Config m)).
             p \<noteq> [] \<longrightarrow> (\<exists>b. MatchString lib p command = Inr b)"
    using valid by simp
  have w: "whitelistLoop lib command (WhitelistPatterns (Config m)) = Inr True"
    using whitelistLoop_valid_match [OF v wl] .
  have "\<forall>p \<in> set (BlacklistPatterns (Config m)). p = [] \<or> MatchString lib p command = Inr False"
  proof
    fix p assume p: "p \<in> set (BlacklistPatterns (Config m))"
    show "p = [] \<or> MatchString lib p command = Inr False"
    proof (cases "p = []")
      case True
      then show ?thesis by simp
    next
      case False
      then obtain b where "MatchString lib p command = Inr b" using valid p by auto
      then show ?thesis using bl p False by (cases b) auto
    qed
  qed
  then have b: "blacklistLoop lib command (BlacklistPatterns (Config m)) = Inr False"
    by (simp add: blacklistLoop_False_iff)
  have "fst (whitelistCheck lib m command)"
    using w b by (simp add: whitelistCheck_True_iff)
  then show ?thesis by simp
qed

text \<open>
  The claim as stated fails for an empty whitelist pattern: as a regular expression it
  matches the command, yet the command is not approved and the prompt is read (here the
  user answers \<open>n\<close>).
\<close>

theorem confirmedToExecFn_empty_pattern_counterexample:
  "MatchString exampleLib [] ''ls'' = Inr True
   \<and> WhitelistPatterns (Config (whitelistedManager [[]] [])) = [[]]
   \<and> BlacklistPatterns (Config (whitelistedManager [[]] [])) = []
   \<and> confirmedToExecFn (Suc (Suc (Suc 0))) exampleLib exampleOs ''ls'' ''Execute this command?'' True
         (whitelistedManager [[]] [], [Arrive (CHR ''n'') [CHR 0x0D]], [])
       = Some (Return (False, []), whitelistedManager [[]] [], [],
               [TermOut ''Execute this command? [Y]es/No/Edit: '', Redraw [110] 1, TermOut crlf])"
proof -
  have c: "char_of (110::nat) = CHR ''n''" by code_simp
  show ?thesis
    by (simp add: exampleLib_def exampleOs_def whitelistedManager_def exampleManager_def
          whitelistCheck_def readConfirmationInput_def promptText_def ReadRune_def
          decodeBuffered_def insertAt_def interpretConfirmation_def c)
qed

theorem confirmedToExecFn_whitelist_bypass_witness:
  "confirmedToExecFn (Suc 0) exampleLib exampleOs ''ls -la'' ''Execute this command?'' True
       (whitelistedManager [''ls''] [''rm''], [Arrive (CHR ''n'') [CHR 0x0D]], [])
     = Some (Return (True, ''ls -la''), whitelistedManager [''ls''] [''rm''],
             [Arrive (CHR ''n'') [CHR 0x0D]], [])"
proof -
  let ?m = "whitelistedManager [''ls''] [''rm'']"
  have valid: "\<forall>p \<in> set (WhitelistPatterns (Config ?m) @ BlacklistPatterns (Config ?m)).
                 p \<noteq> [] \<longrightarrow> (\<exists>b. MatchString exampleLib p ''ls -la'' = Inr b)"
    by (auto simp: whitelistedManager_def exampleLib_def)
  have wl: "\<exists>p \<in> set (WhitelistPatterns (Config ?m)).
              p \<noteq> [] \<and> MatchString exampleLib p ''ls -la'' = Inr True"
    by (simp add: whitelistedManager_def exampleLib_def)
  have bl: "\<forall>p \<in> set (BlacklistPatterns (Config ?m)).
              p \<noteq> [] \<longrightarrow> MatchString exampleLib p ''ls -la'' \<noteq> Inr True"
    by (simp add: whitelistedManager_def exampleLib_def)
  show ?thesis
    using confirmedToExecFn_whitelist_bypass [OF valid wl bl] .
qed

text \<open>
  C9 (amended). \<open>whitelistCheck\<close> returns true only without an error, and only when the
  command matches some non-empty whitelist pattern and every non-empty blacklist pattern
  is valid and does not match (empty patterns are skipped, so an empty blacklist pattern
  blocks nothing). An invalid pattern that the check evaluates, in the whitelist before
  any match or in the blacklist of a whitelisted command before any match, gives
  \<open>(false, error)\<close>. Whenever the check is not true, \<open>confirmedToExecFn\<close> decides by
  the interactive prompt: its result is the interpretation of what
  \<open>readConfirmationInput\<close> reads.
\<close>

theorem whitelistCheck_fails_closed:
  "(fst (whitelistCheck lib m command) \<longrightarrow>
      snd (whitelistCheck lib m command) = None
      \<and> (\<exists>p \<in> set (WhitelistPatterns (Config m)).
            p \<noteq> [] \<and> MatchString lib p command = Inr True)
      \<and> (\<forall>p \<in> set (BlacklistPatterns (Config m)).
            p \<noteq> [] \<longrightarrow> MatchString lib p command = Inr False))
   \<and> (snd (whitelistCheck lib m command) \<noteq> None \<longrightarrow> \<not> fst (whitelistCheck lib m command))
   \<and> (WhitelistPatterns (Config m) = pre @ p # post \<and> p \<noteq> []
        \<and> MatchString lib p command = Inl err
        \<and> (\<forall>q \<in> set pre. q = [] \<or> MatchString lib q command = Inr False) \<longrightarrow>
      whitelistCheck lib m command =
        (False, Some (''invalid whitelist regex pattern '' @ [CHR 0x27] @ p @ [CHR 0x27]
                        @ '': '' @ err)))
   \<and> (whitelistLoop lib command (WhitelistPatterns (Config m)) = Inr True
        \<and> BlacklistPatterns (Config m) = pre @ p # post \<and> p \<noteq> []
        \<and> MatchString lib p command = Inl err
        \<and> (\<forall>q \<in> set pre. q = [] \<or> MatchString lib q command = Inr False) \<longrightarrow>
      whitelistCheck lib m command =
        (False, Some (''invalid blacklist regex pattern '' @ [CHR 0x27] @ p @ [CHR 0x27]
                        @ '': '' @ err)))
   \<and> (\<not> fst (whitelistCheck lib m command) \<longrightarrow>
      confirmedToExecFn (Suc n) lib os command prompt edit (m, inp, tr) =
        interpretConfirmation lib os command m
          (\<lambda>st. confirmedToExecFn n lib os command prompt edit st)
          (readConfirmationInput n lib os (promptText prompt edit) inp tr))"
proof (intro conjI impI)
  assume t: "fst (whitelistCheck lib m command)"
  then have w: "whitelistLoop lib command (WhitelistPatterns (Config m)) = Inr True"
    and b: "blacklistLoop lib command (BlacklistPatterns (Config m)) = Inr False"
    by (simp_all add: whitelistCheck_True_iff)
  show "snd (whitelistCheck lib m command) = None"
    using w b by (simp add: whitelistCheck_def)
  obtain pre' p' post' where "WhitelistPatterns (Config m) = pre' @ p' # post'"
      "p' \<noteq> []" "MatchString lib p' command = Inr True"
    using w whitelistLoop_True_iff [of lib command "WhitelistPatterns (Config m)"] by auto
  then show "\<exists>p \<in> set (WhitelistPatterns (Config m)).
               p \<noteq> [] \<and> MatchString lib p command = Inr True"
    by auto
  show "\<forall>p \<in> set (BlacklistPatterns (Config m)).
          p \<noteq> [] \<longrightarrow> MatchString lib p command = Inr False"
    using b by (auto simp: blacklistLoop_False_iff)
next
  assume "snd (whitelistCheck lib m command) \<noteq> None"
  then show "\<not> fst (whitelistCheck lib m command)"
    by (auto simp: whitelistCheck_def split: sum.splits if_splits)
next
  assume a: "WhitelistPatterns (Config m) = pre @ p # post \<and> p \<noteq> []
               \<and> MatchString lib p command = Inl err
               \<and> (\<forall>q \<in> set pre. q = [] \<or> MatchString lib q command = Inr False)"
  then have "whitelistLoop lib command (WhitelistPatterns (Config m)) =
               Inl (''invalid whitelist regex pattern '' @ [CHR 0x27] @ p @ [CHR 0x27]
                      @ '': '' @ err)"
    using whitelistLoop_Inl [of p lib command err pre post] by simp
  then show "whitelistCheck lib m command =
               (False, Some (''invalid whitelist regex pattern '' @ [CHR 0x27] @ p @ [CHR 0x27]
                               @ '': '' @ err))"
    by (simp add: whitelistCheck_def)
next
  assume a: "whitelistLoop lib command (WhitelistPatterns (Config m)) = Inr True
               \<and> BlacklistPatterns (Config m) = pre @ p # post \<and> p \<noteq> []
               \<and> MatchString lib p command = Inl err
               \<and> (\<forall>q \<in> set pre. q = [] \<or> MatchString lib q command = Inr False)"
  then have "blacklistLoop lib command (BlacklistPatterns (Config m)) =
               Inl (''invalid blacklist regex pattern '' @ [CHR 0x27] @ p @ [CHR 0x27]
                      @ '': '' @ err)"
    using blacklistLoop_Inl [of p lib command err pre post] by simp
  then show "whitelistCheck lib m command =
               (False, Some (''invalid blacklist regex pattern '' @ [CHR 0x27] @ p @ [CHR 0x27]
                               @ '': '' @ err))"
    using a by (simp add: whitelistCheck_def)
next
  assume "\<not> fst (whitelistCheck lib m command)"
  then show "confirmedToExecFn (Suc n) lib os command prompt edit (m, inp, tr) =
               interpretConfirmation lib os command m
                 (\<lambda>st. confirmedToExecFn n lib os command prompt edit st)
                 (readConfirmationInput n lib os (promptText prompt edit) inp tr)"
    by simp
qed

text \<open>
  The claim as stated fails for an empty blacklist pattern: as a regular expression it
  matches the command, yet \<open>whitelistCheck\<close> returns true.
\<close>

theorem whitelistCheck_empty_blacklist_counterexample:
  "MatchString exampleLib [] ''ls'' = Inr True
   \<and> BlacklistPatterns (Config (whitelistedManager [''ls''] [[]])) = [[]]
   \<and> whitelistCheck exampleLib (whitelistedManager [''ls''] [[]]) ''ls'' = (True, None)"
  by (simp add: exampleLib_def whitelistedManager_def exampleManager_def whitelistCheck_def)



theorem whitelistCheck_fails_closed_witness:
  "whitelistCheck exampleLib (whitelistedManager [''ls''] [''('']) ''ls'' =
     (False, Some (''invalid blacklist regex pattern '' @ [CHR 0x27] @ ''('' @ [CHR 0x27]
                     @ '': '' @ ''missing closing )''))
   \<and> confirmedToExecFn (Suc (Suc (Suc 0))) exampleLib exampleOs ''ls'' ''Execute this command?'' True
         (whitelistedManager [''ls''] [''(''], [Arrive (CHR ''n'') [CHR 0x0D]], [])
       = Some (Return (False, []), whitelistedManager [''ls''] [''(''], [],
               [TermOut ''Execute this command? [Y]es/No/Edit: '', Redraw [110] 1, TermOut crlf])"
proof -
  let ?m = "whitelistedManager [''ls''] [''('']"
  have c: "char_of (110::nat) = CHR ''n''" by code_simp
  have w: "whitelistLoop exampleLib ''ls'' (WhitelistPatterns (Config ?m)) = Inr True"
    by (simp add: whitelistedManager_def exampleLib_def)
  have b: "BlacklistPatterns (Config ?m) = [] @ ''('' # []"
    by (simp add: whitelistedManager_def)
  have i: "MatchString exampleLib ''('' ''ls'' = Inl ''missing closing )''"
    by (simp add: exampleLib_def)
  have r: "readConfirmationInput (Suc (Suc 0)) exampleLib exampleOs
             (promptText ''Execute this command?'' True) [Arrive (CHR ''n'') [CHR 0x0D]] []
           = Some (Return (Inr (''n'', False)), [],
                   [TermOut ''Execute this command? [Y]es/No/Edit: '', Redraw [110] 1,
                    TermOut crlf])"
    by (simp add: exampleLib_def exampleOs_def readConfirmationInput_def promptText_def
          ReadRune_def decodeBuffered_def insertAt_def c)
  have t: "interpretConfirmation exampleLib exampleOs ''ls'' ?m
             (\<lambda>st. confirmedToExecFn (Suc (Suc 0)) exampleLib exampleOs ''ls''
                     ''Execute this command?'' True st)
             (Some (Return (Inr (''n'', False)), [],
                    [TermOut ''Execute this command? [Y]es/No/Edit: '', Redraw [110] 1,
                     TermOut crlf]))
           = Some (Return (False, []), ?m, [],
                   [TermOut ''Execute this command? [Y]es/No/Edit: '', Redraw [110] 1,
                    TermOut crlf])"
    by (simp add: interpretConfirmation_def exampleLib_def)
  have f: "whitelistCheck exampleLib ?m ''ls'' =
             (False, Some (''invalid blacklist regex pattern '' @ [CHR 0x27] @ ''('' @ [CHR 0x27]
                             @ '': '' @ ''missing closing )''))"
    using whitelistCheck_fails_closed
            [where lib = exampleLib and m = ?m and command = "''ls''" and pre = "[]"
               and p = "''(''" and post = "[]" and err = "''missing closing )''",
             THEN conjunct2, THEN conjunct2, THEN conjunct2, THEN conjunct1]
          w b i
    by simp
  have g: "confirmedToExecFn (Suc (Suc (Suc 0))) exampleLib exampleOs ''ls''
             ''Execute this command?'' True (?m, [Arrive (CHR ''n'') [CHR 0x0D]], [])
           = interpretConfirmation exampleLib exampleOs ''ls'' ?m
               (\<lambda>st. confirmedToExecFn (Suc (Suc 0)) exampleLib exampleOs ''ls''
                       ''Execute this command?'' True st)
               (readConfirmationInput (Suc (Suc 0)) exampleLib exampleOs
                  (promptText ''Execute this command?'' True) [Arrive (CHR ''n'') [CHR 0x0D]] [])"
    using f whitelistCheck_fails_closed
            [where lib = exampleLib and m = ?m and command = "''ls''" and n = "Suc (Suc 0)"
               and os = exampleOs and prompt = "''Execute this command?''" and edit = True
               and inp = "[Arrive (CHR ''n'') [CHR 0x0D]]" and tr = "[]",
             THEN conjunct2, THEN conjunct2, THEN conjunct2, THEN conjunct2]
    by (simp del: confirmedToExecFn.simps)
  show ?thesis
    unfolding g r t using f by simp
qed

section \<open>Action state machine: results\<close>

lemma quietExtension_refl: "quietExtension tr tr"
  by (simp add: quietExtension_def)

lemma quietExtension_step:
  "quietExtension tr0 tr \<Longrightarrow> list_all (\<lambda>ev. \<not> isPaneSend ev) evs \<Longrightarrow> quietExtension tr0 (tr @ evs)"
  by (auto simp: quietExtension_def)

lemma quietExtension_trans:
  "quietExtension tr0 tr1 \<Longrightarrow> quietExtension tr1 tr2 \<Longrightarrow> quietExtension tr0 tr2"
  by (auto simp: quietExtension_def)

lemma summarizeChatHistory_quiet:
  "summarizeChatHistory e m tr messages = (res, tr') \<Longrightarrow> quietExtension tr tr'"
  by (auto simp: summarizeChatHistory_def Let_def split: sum.splits if_splits
        intro!: quietExtension_step quietExtension_refl)

lemma squashHistory_quiet:
  assumes "squashHistory e (m, tr) = (m', tr')"
  shows "quietExtension tr tr'"
proof -
  obtain res tr1 where s: "summarizeChatHistory e m tr (messagesToSummarize m) = (res, tr1)"
    by (cases "summarizeChatHistory e m tr (messagesToSummarize m)")
  have q: "quietExtension tr tr1" using summarizeChatHistory_quiet [OF s] .
  have "tr' = tr \<or> tr' = tr1 \<or> (\<exists>err. tr' = tr1 @ [LogError err])"
    using assms s
    by (auto simp: squashHistory_def Let_def split: prod.splits sum.splits if_splits)
  then show ?thesis
    using q by (auto intro: quietExtension_refl quietExtension_step)
qed

lemma askModel_quiet:
  assumes "askModel e c message (m0, tr0) = Inr (r, currentMessage, responseMsg, m, tr)"
  shows "quietExtension tr0 tr"
proof -
  obtain ms trs where sq:
    "(if needSquash e m0 then
        squashHistory e (m0, tr0 @ [Println ''Exceeded context size, squashing history...''])
      else (m0, tr0)) = (ms, trs)"
    by (cases "if needSquash e m0 then
        squashHistory e (m0, tr0 @ [Println ''Exceeded context size, squashing history...''])
      else (m0, tr0)")
  have q0: "quietExtension tr0 trs"
  proof (cases "needSquash e m0")
    case True
    then have "squashHistory e (m0, tr0 @ [Println ''Exceeded context size, squashing history...''])
                 = (ms, trs)"
      using sq by simp
    then have "quietExtension (tr0 @ [Println ''Exceeded context size, squashing history...'']) trs"
      by (rule squashHistory_quiet)
    moreover have "quietExtension tr0 (tr0 @ [Println ''Exceeded context size, squashing history...''])"
      by (intro quietExtension_step quietExtension_refl) simp
    ultimately show ?thesis by (rule quietExtension_trans [rotated])
  next
    case False
    then show ?thesis using sq by (auto intro: quietExtension_refl)
  qed
  have "\<exists>evs. tr = trs @ evs \<and> list_all (\<lambda>ev. \<not> isPaneSend ev) evs"
    using assms
    unfolding askModel_def prod.case sq Let_def
    by (auto split: if_splits sum.splits)
  then have "quietExtension trs tr" by (simp add: quietExtension_def)
  then show ?thesis using q0 by (rule quietExtension_trans [rotated])
qed

lemma valid_counts:
  assumes "snd (aiFollowedGuidelines m r)"
  shows "spec_flagCount r \<le> 1" and "spec_categoryCount r \<le> 1"
  using assms
  by (auto simp: aiFollowedGuidelines_def boolCount_spec countPositive_tags_spec Let_def
        split: if_splits)


lemma valid_single_exec:
  assumes "snd (aiFollowedGuidelines m r)" and "ExecCommand r = [execCommand]"
  shows "SendKeys r = []" and "PasteMultilineContent r = []"
  using valid_counts [OF assms(1)] assms(2)
  by (auto simp: spec_categoryCount_def split: if_splits)

text \<open>
  C7. In a turn whose parsed response passed the guardrail check and holds the single
  command \<open>execCommand\<close>, when exec confirmation is required and the confirmation
  function answers \<open>(false, "")\<close>, \<open>ProcessUserMessage\<close> returns false with the status
  cleared; after the parse it has only printed the message and the command and asked for
  confirmation, and in the whole call nothing was sent to the pane and no other category
  of the response was processed.
\<close>

theorem exec_confirmation_denied:
  assumes turn: "askModel e c message (m0, tr0) = Inr (r, currentMessage, responseMsg, m, tr)"
      and valid: "snd (aiFollowedGuidelines m r)"
      and one: "ExecCommand r = [execCommand]"
      and required: "GetExecConfirm m"
      and denied: "confirmedToExec e
                     (tr @ (if Message r \<noteq> [] then [TermOut (Cosmetics e (Message r) @ newline)]
                            else [])
                         @ [Println (HighlightCode e ''sh'' execCommand)])
                     execCommand ''Execute this command?'' True = (False, [])"
  shows "\<exists>m' added.
           ProcessUserMessage (Suc n) e c message (m0, tr0) =
             Some (False, m', tr0 @ added)
           \<and> Status m' = []
           \<and> m' = (if ExecPaneSeemsBusy r \<or> NoComment r then m
                    else m\<lparr>Messages := Messages m @ [currentMessage, responseMsg]\<rparr>)
                   \<lparr>Status := []\<rparr>
           \<and> tr0 @ added =
               tr @ (if Message r \<noteq> [] then [TermOut (Cosmetics e (Message r) @ newline)]
                     else [])
                  @ [Println (HighlightCode e ''sh'' execCommand),
                     Confirm execCommand ''Execute this command?'' True]
           \<and> list_all (\<lambda>ev. \<not> isPaneSend ev) added"
proof -
  let ?msg = "if Message r \<noteq> [] then [TermOut (Cosmetics e (Message r) @ newline)] else []"
  let ?m1 = "if ExecPaneSeemsBusy r \<or> NoComment r then m
             else m\<lparr>Messages := Messages m @ [currentMessage, responseMsg]\<rparr>"
  let ?tr' = "tr @ ?msg @ [Println (HighlightCode e ''sh'' execCommand),
                            Confirm execCommand ''Execute this command?'' True]"
  have req: "GetExecConfirm ?m1"
    using required by (simp add: GetExecConfirm_def split: option.splits override.splits)
  have ex: "execCommands e [execCommand] (?m1, tr @ ?msg) = (False, ?m1\<lparr>Status := []\<rparr>, ?tr')"
    using req denied by (simp add: Let_def)
  have act: "actBeforeBusy e r currentMessage responseMsg (m, tr) =
               (False, ?m1\<lparr>Status := []\<rparr>, ?tr')"
    unfolding actBeforeBusy_def prod.case Let_def one ex by simp
  obtain g where gl: "aiFollowedGuidelines m r = (g, True)"
    using valid by (cases "aiFollowedGuidelines m r") auto
  have res: "ProcessUserMessage (Suc n) e c message (m0, tr0) =
               Some (False, ?m1\<lparr>Status := []\<rparr>, ?tr')"
    by (simp add: turn gl act)
  obtain pre where pre: "tr = tr0 @ pre" and quiet: "list_all (\<lambda>ev. \<not> isPaneSend ev) pre"
    using askModel_quiet [OF turn] by (auto simp: quietExtension_def)
  let ?added = "pre @ ?msg @ [Println (HighlightCode e ''sh'' execCommand),
                               Confirm execCommand ''Execute this command?'' True]"
  have a: "?tr' = tr0 @ ?added" by (simp add: pre)
  have q: "list_all (\<lambda>ev. \<not> isPaneSend ev) ?added" using quiet by simp
  show ?thesis
    apply (rule exI [of _ "?m1\<lparr>Status := []\<rparr>"])
    apply (rule exI [of _ ?added])
    using res a q by simp
qed



lemmas example_defs =
  busyPasteEnv_def denyingEnv_def exampleEnv_def watchManager_def subshellManager_def
  exampleManager_def busyPasteResponse_def waitingResponse_def execResponse_def
  emptyResponse_def

lemmas turn_defs =
  askModel_def needSquash_def ctx_Err_def GetMaxContextSize_def GetOpenRouterModel_def
  GetWaitInterval_def GetExecConfirm_def GetSendKeysConfirm_def GetPasteMultilineConfirm_def
  aiFollowedGuidelines_def boolCount_def tags_def actBeforeBusy_def processSendKeys_def
  pasteMultiline_def Countdown_def Let_def


lemma busyPaste_continuation:
  "ProcessUserMessage (Suc 0) busyPasteEnv BackgroundCtx busyPrompt
     (watchManager,
      [AiRequest CallerCtx
         [\<lparr> Content = ''watch'', FromUser = False, Timestamp = 0 \<rparr>,
          \<lparr> Content = ''<tmux/>'' @ newline @ newline @ newline @ newline @ ''go'',
            FromUser = True, Timestamp = 0 \<rparr>]
         ''test-model'',
       CountdownEv 5]) =
   Some (False,
         watchManager
           \<lparr>Messages :=
              [\<lparr> Content = ''<tmux/>'' @ newline @ newline @ newline @ newline @ busyPrompt,
                 FromUser = True, Timestamp = 2 \<rparr>,
               \<lparr> Content = ''second'', FromUser = False, Timestamp = 3 \<rparr>],
            Status := ''waiting''\<rparr>,
         [AiRequest CallerCtx
            [\<lparr> Content = ''watch'', FromUser = False, Timestamp = 0 \<rparr>,
             \<lparr> Content = ''<tmux/>'' @ newline @ newline @ newline @ newline @ ''go'',
               FromUser = True, Timestamp = 0 \<rparr>]
            ''test-model'',
          CountdownEv 5,
          AiRequest BackgroundCtx
            [\<lparr> Content = ''watch'', FromUser = False, Timestamp = 0 \<rparr>,
             \<lparr> Content = ''<tmux/>'' @ newline @ newline @ newline @ newline @ busyPrompt,
               FromUser = True, Timestamp = 2 \<rparr>]
            ''test-model''])"
  by (simp add: turn_defs example_defs)





lemma denied_turn:
  "askModel denyingEnv CallerCtx ''clean up'' (subshellManager, []) =
     Inr (execResponse,
          \<lparr> Content = ''<tmux/>'' @ newline @ newline @ newline @ newline @ ''clean up'',
            FromUser = True, Timestamp = 0 \<rparr>,
          \<lparr> Content = ''mock response'', FromUser = False, Timestamp = 1 \<rparr>,
          subshellManager,
          [AiRequest CallerCtx
             [\<lparr> Content = ''assistant'', FromUser = False, Timestamp = 0 \<rparr>,
              \<lparr> Content = ''<tmux/>'' @ newline @ newline @ newline @ newline @ ''clean up'',
                FromUser = True, Timestamp = 0 \<rparr>]
             ''test-model''])"
  by (simp add: turn_defs example_defs)

theorem exec_confirmation_denied_witness:
  "ProcessUserMessage (Suc 0) denyingEnv CallerCtx ''clean up'' (subshellManager, []) =
     Some (False,
           subshellManager
             \<lparr>Messages :=
                [\<lparr> Content = ''<tmux/>'' @ newline @ newline @ newline @ newline @ ''clean up'',
                   FromUser = True, Timestamp = 0 \<rparr>,
                 \<lparr> Content = ''mock response'', FromUser = False, Timestamp = 1 \<rparr>],
              Status := []\<rparr>,
           [AiRequest CallerCtx
              [\<lparr> Content = ''assistant'', FromUser = False, Timestamp = 0 \<rparr>,
               \<lparr> Content = ''<tmux/>'' @ newline @ newline @ newline @ newline @ ''clean up'',
                 FromUser = True, Timestamp = 0 \<rparr>]
              ''test-model'',
            Println ''rm -rf /'',
            Confirm ''rm -rf /'' ''Execute this command?'' True])"
proof -
  have v: "snd (aiFollowedGuidelines subshellManager execResponse)"
    by (simp add: turn_defs example_defs)
  have one: "ExecCommand execResponse = [''rm -rf /'']"
    by (simp add: example_defs)
  have req: "GetExecConfirm subshellManager"
    by (simp add: turn_defs example_defs)
  have den: "confirmedToExec denyingEnv
               ([AiRequest CallerCtx
                   [\<lparr> Content = ''assistant'', FromUser = False, Timestamp = 0 \<rparr>,
                    \<lparr> Content = ''<tmux/>'' @ newline @ newline @ newline @ newline
                                    @ ''clean up'',
                      FromUser = True, Timestamp = 0 \<rparr>]
                   ''test-model'']
                 @ (if Message execResponse \<noteq> []
                    then [TermOut (Cosmetics denyingEnv (Message execResponse) @ newline)]
                    else [])
                 @ [Println (HighlightCode denyingEnv ''sh'' ''rm -rf /'')])
               ''rm -rf /'' ''Execute this command?'' True = (False, [])"
    by (simp add: example_defs)
  have h: "HighlightCode denyingEnv ''sh'' ''rm -rf /'' = ''rm -rf /''"
    and ms: "Message execResponse = []"
    and fl: "\<not> ExecPaneSeemsBusy execResponse" "\<not> NoComment execResponse"
    by (simp_all add: example_defs)
  obtain m' added where
      r: "ProcessUserMessage (Suc 0) denyingEnv CallerCtx ''clean up'' (subshellManager, []) =
            Some (False, m', [] @ added)"
    and m': "m' = (if ExecPaneSeemsBusy execResponse \<or> NoComment execResponse
                   then subshellManager
                   else subshellManager
                     \<lparr>Messages := Messages subshellManager @
                        [\<lparr> Content = ''<tmux/>'' @ newline @ newline @ newline @ newline
                                         @ ''clean up'',
                           FromUser = True, Timestamp = 0 \<rparr>,
                         \<lparr> Content = ''mock response'', FromUser = False,
                           Timestamp = 1 \<rparr>]\<rparr>)
                  \<lparr>Status := []\<rparr>"
    and tr: "[] @ added =
               [AiRequest CallerCtx
                  [\<lparr> Content = ''assistant'', FromUser = False, Timestamp = 0 \<rparr>,
                   \<lparr> Content = ''<tmux/>'' @ newline @ newline @ newline @ newline
                                   @ ''clean up'',
                     FromUser = True, Timestamp = 0 \<rparr>]
                  ''test-model'']
               @ (if Message execResponse \<noteq> []
                  then [TermOut (Cosmetics denyingEnv (Message execResponse) @ newline)]
                  else [])
               @ [Println (HighlightCode denyingEnv ''sh'' ''rm -rf /''),
                  Confirm ''rm -rf /'' ''Execute this command?'' True]"
    using exec_confirmation_denied [OF denied_turn v one req den, of 0] by blast
  show ?thesis
    unfolding r m' tr by (simp add: h ms fl example_defs)
qed

end
